theory Spec2Isabelle
  imports Complex_Main "HOL-Library.Char_ord" "HOL-Library.List_Lexorder"
    "HOL-Library.Product_Lexorder" "HOL-Library.Multiset"
begin

section \<open>Cells, strings and errors\<close>

text \<open>
  A spreadsheet cell as pandas hands it to the scripts: an empty cell is NaN, a text cell
  is a Python string, a numeric cell is a float.  Floats are idealised as reals; the
  operations the views apply to them (comparison, minimum) are exact on floats as well.
  A string is a list of 8-bit characters, read as the code points 0 to 255.
\<close>

datatype cell = NaN | Txt string | Num real

datatype error = OpenError | ValueError | IndexError | KeyError | AttributeError

text \<open>Python's \<^verbatim>\<open>str(x)\<close>: NaN prints as \<^verbatim>\<open>nan\<close>; the printing of a float belongs to
  Python and is the parameter \<open>fmt\<close>.\<close>

fun py_str :: "(real \<Rightarrow> string) \<Rightarrow> cell \<Rightarrow> string" where
  "py_str fmt NaN = ''nan''"
| "py_str fmt (Txt s) = s"
| "py_str fmt (Num x) = fmt x"

text \<open>
  The repository pins no pandas version, and \<^verbatim>\<open>Series.astype(str)\<close> differs between
  them on a missing value: before pandas 3.0 it becomes the text \<^verbatim>\<open>nan\<close>, from 3.0 on
  it stays missing.  Every other value becomes its string.
\<close>

datatype pandas = Before3 | From3

fun astype_str :: "pandas \<Rightarrow> (real \<Rightarrow> string) \<Rightarrow> cell \<Rightarrow> cell" where
  "astype_str Before3 fmt NaN = Txt ''nan''"
| "astype_str From3 fmt NaN = NaN"
| "astype_str P fmt (Txt s) = Txt s"
| "astype_str P fmt (Num x) = Txt (fmt x)"

text \<open>\<^verbatim>\<open>str.lower()\<close> on the code points 0 to 255: the capital letters A to Z and the
  Latin-1 capitals (192 to 222 without the multiplication sign 215) become their small
  letters, 32 places up; every other character stays.\<close>

definition capitals :: "char list" where
  "capitals = ''ABCDEFGHIJKLMNOPQRSTUVWXYZ'' @
     [CHR 0xC0, CHR 0xC1, CHR 0xC2, CHR 0xC3, CHR 0xC4, CHR 0xC5, CHR 0xC6, CHR 0xC7,
      CHR 0xC8, CHR 0xC9, CHR 0xCA, CHR 0xCB, CHR 0xCC, CHR 0xCD, CHR 0xCE, CHR 0xCF,
      CHR 0xD0, CHR 0xD1, CHR 0xD2, CHR 0xD3, CHR 0xD4, CHR 0xD5, CHR 0xD6, CHR 0xD8,
      CHR 0xD9, CHR 0xDA, CHR 0xDB, CHR 0xDC, CHR 0xDD, CHR 0xDE]"

definition smalls :: "char list" where
  "smalls = ''abcdefghijklmnopqrstuvwxyz'' @
     [CHR 0xE0, CHR 0xE1, CHR 0xE2, CHR 0xE3, CHR 0xE4, CHR 0xE5, CHR 0xE6, CHR 0xE7,
      CHR 0xE8, CHR 0xE9, CHR 0xEA, CHR 0xEB, CHR 0xEC, CHR 0xED, CHR 0xEE, CHR 0xEF,
      CHR 0xF0, CHR 0xF1, CHR 0xF2, CHR 0xF3, CHR 0xF4, CHR 0xF5, CHR 0xF6, CHR 0xF8,
      CHR 0xF9, CHR 0xFA, CHR 0xFB, CHR 0xFC, CHR 0xFD, CHR 0xFE]"

definition lower_char :: "char \<Rightarrow> char" where
  "lower_char c = (case map_of (zip capitals smalls) c of Some d \<Rightarrow> d | None \<Rightarrow> c)"

definition lower :: "string \<Rightarrow> string" where
  "lower s = map lower_char s"

text \<open>\<^verbatim>\<open>kw in x\<close> on strings: \<open>kw\<close> occurs in \<open>x\<close> as a contiguous block.\<close>

fun starts_with :: "string \<Rightarrow> string \<Rightarrow> bool" where
  "starts_with [] x = True"
| "starts_with (k # ks) [] = False"
| "starts_with (k # ks) (c # cs) = (k = c \<and> starts_with ks cs)"

fun str_in :: "string \<Rightarrow> string \<Rightarrow> bool" where
  "str_in kw [] = (kw = [])"
| "str_in kw (c # cs) = (starts_with kw (c # cs) \<or> str_in kw cs)"

text \<open>\<^verbatim>\<open>.str.replace('\n', ' ', regex=False)\<close>: every line feed becomes a space.\<close>

definition newline :: char where
  "newline = CHR 0x0A"

definition replace_newline :: "string \<Rightarrow> string" where
  "replace_newline s = map (\<lambda>c. if c = newline then CHR '' '' else c) s"

text \<open>\<^verbatim>\<open>str.strip()\<close>: the characters Python counts as whitespace among the code
  points 0 to 255 (9 to 13, 28 to 32, 133 and 160) are removed from both ends.\<close>

definition whitespace :: "char list" where
  "whitespace = [CHR 0x09, CHR 0x0A, CHR 0x0B, CHR 0x0C, CHR 0x0D,
                 CHR 0x1C, CHR 0x1D, CHR 0x1E, CHR 0x1F, CHR 0x20, CHR 0x85, CHR 0xA0]"

definition is_space :: "char \<Rightarrow> bool" where
  "is_space c = (c \<in> set whitespace)"

definition strip :: "string \<Rightarrow> string" where
  "strip s = rev (dropWhile is_space (rev (dropWhile is_space s)))"

section \<open>The vendor workbook and its loaders\<close>

text \<open>
  A sheet as \<^verbatim>\<open>pd.read_excel\<close> returns it: its name, the number of columns of the
  frame, and the rows of the frame (for the vendor workbook the header row is already
  consumed).  A cell beyond the end of a stored row is empty, as pandas pads short rows.
  A workbook that \<^verbatim>\<open>pd.ExcelFile\<close> cannot open is \<open>None\<close>.
\<close>

record sheet =
  sheet_name :: string
  ncols :: nat
  body :: "cell list list"

type_synonym workbook = "sheet list option"

definition cell_at :: "cell list \<Rightarrow> nat \<Rightarrow> cell" where
  "cell_at row i = (if i < length row then row ! i else NaN)"

text \<open>A row of the vendor table of \<^verbatim>\<open>eda_analysis.py\<close> and \<^verbatim>\<open>generate_report.py\<close>
  (which calls the commitment column \<^verbatim>\<open>SDO_Pct\<close>); the dashboard adds the label.  The
  three cleaned text fields are missing (\<open>None\<close>) where \<^verbatim>\<open>astype(str)\<close> left a missing
  value.\<close>

record vendor =
  Contract_Code :: "string option"
  Name :: "string option"
  Company :: "string option"
  Role :: cell
  Email :: cell
  Phone :: cell
  SDO_Commitment_Pct :: "real option"
  Category :: string

record dvendor = vendor +
  Category_Label :: "string option"

definition CATEGORY_NAMES :: "(string \<times> string) list" where
  "CATEGORY_NAMES =
    [(''ITE'', ''IT Equipment & Services''),
     (''ITS'', ''IT Software & Services''),
     (''ITT'', ''Telecom & Networking''),
     (''FAC'', ''Facilities General''),
     (''VEH'', ''Vehicle Acquisition & Maint.''),
     (''GRO'', ''Food & Food Service''),
     (''LND'', ''Facility Landscaping''),
     (''MED'', ''Health & Medical''),
     (''MRO'', ''Maintenance, Repair & Ops''),
     (''OFF'', ''Office Supplies''),
     (''PRF'', ''Professional Services''),
     (''PSE'', ''Public Safety & Security''),
     (''SFC'', ''Sustainable Facilities''),
     (''TRD'', ''Tradespersons''),
     (''WMR'', ''Waste Mgmt & Recycling'')]"

definition SKIP_SHEETS :: "string list" where
  "SKIP_SHEETS = [''Abbreviations '']"

text \<open>\<^verbatim>\<open>sheet.strip() in [s.strip() for s in SKIP_SHEETS]\<close>\<close>

definition skipped :: "sheet \<Rightarrow> bool" where
  "skipped sh = (strip (sheet_name sh) \<in> set (map strip SKIP_SHEETS))"

definition metadata_keywords :: "string list" where
  "metadata_keywords =
    [''Master Contract'', ''Solicitation Enabled'', ''Master MBPO'',
     ''Bid and Contract'', ''Category and Vendor'', ''Category Development'',
     ''Mass Gov'', ''OSD Help Desk'', ''N/A'']"

text \<open>The mask of the three loaders on the stringified company cell:
  \<^verbatim>\<open>not any(kw.lower() in x.lower() for kw in metadata_keywords)\<close>.\<close>

definition mentions :: "string \<Rightarrow> string \<Rightarrow> bool" where
  "mentions kw x = str_in (lower kw) (lower x)"

definition mask :: "string \<Rightarrow> bool" where
  "mask x = (\<not> list_ex (\<lambda>kw. mentions kw x) metadata_keywords)"

text \<open>The lambda of the mask in \<^verbatim>\<open>eda_analysis.py\<close> and \<^verbatim>\<open>generate_report.py\<close>,
  applied to an element of the column after \<^verbatim>\<open>astype(str)\<close>: it calls \<^verbatim>\<open>x.lower()\<close>,
  which a value that is no string does not have.\<close>

fun lower_mask :: "cell \<Rightarrow> error + bool" where
  "lower_mask (Txt s) = Inr (mask s)"
| "lower_mask c = Inl AttributeError"

text \<open>\<^verbatim>\<open>Series.apply\<close>: the function is applied row by row, and the first row on which
  it raises ends the call.\<close>

fun apply_rows :: "('a \<Rightarrow> error + 'b) \<Rightarrow> 'a list \<Rightarrow> error + 'b list" where
  "apply_rows f [] = Inr []"
| "apply_rows f (x # xs) =
     (case f x of
        Inl e \<Rightarrow> Inl e
      | Inr y \<Rightarrow> (case apply_rows f xs of Inl e \<Rightarrow> Inl e | Inr ys \<Rightarrow> Inr (y # ys)))"

text \<open>\<^verbatim>\<open>df[mask]\<close> with a boolean mask: the rows whose entry is true.\<close>

definition select_rows :: "'a list \<Rightarrow> bool list \<Rightarrow> 'a list" where
  "select_rows rows m = map fst (filter snd (zip rows m))"

text \<open>\<^verbatim>\<open>astype(str).str.replace('\n', ' ', regex=False).str.strip()\<close>: the string
  methods act on a string and leave a missing value missing.\<close>

fun str_clean :: "cell \<Rightarrow> string option" where
  "str_clean (Txt s) = Some (strip (replace_newline s))"
| "str_clean c = None"

definition clean :: "pandas \<Rightarrow> (real \<Rightarrow> string) \<Rightarrow> cell \<Rightarrow> string option" where
  "clean P fmt c = str_clean (astype_str P fmt c)"

text \<open>The part of the loop body that the three loaders share after the mask: the
  commitment is coerced and the three text columns are cleaned.
  \<^verbatim>\<open>pd.to_numeric(..., errors='coerce')\<close> belongs to pandas and is the parameter
  \<open>to_numeric\<close>.\<close>

definition cleaned_row ::
  "pandas \<Rightarrow> (real \<Rightarrow> string) \<Rightarrow> (cell \<Rightarrow> real option) \<Rightarrow> string \<Rightarrow> cell list \<Rightarrow> vendor" where
  "cleaned_row P fmt to_numeric cat row =
     \<lparr>Contract_Code = clean P fmt (cell_at row 0),
      Name = clean P fmt (cell_at row 1),
      Company = clean P fmt (cell_at row 2),
      Role = cell_at row 3,
      Email = cell_at row 4,
      Phone = cell_at row 5,
      SDO_Commitment_Pct = to_numeric (cell_at row 6),
      Category = cat\<rparr>"

text \<open>
  One pass of the loop body of \<^verbatim>\<open>load_vendor_data\<close> in \<^verbatim>\<open>eda_analysis.py\<close>.
  \<^verbatim>\<open>df.iloc[:, :7]\<close> keeps at most seven columns and the assignment of seven column
  names raises ValueError when the frame has fewer.  The mask is computed from the company
  column after \<^verbatim>\<open>astype(str)\<close>, and the rows are filtered by it before anything is
  cleaned.  On a frame without rows the result of \<^verbatim>\<open>apply\<close> is an empty column that
  is no boolean mask: \<^verbatim>\<open>df[mask]\<close> then keeps no column at all, and the next line,
  which reads the commitment column, raises KeyError.
\<close>

definition frame_eda ::
  "pandas \<Rightarrow> (real \<Rightarrow> string) \<Rightarrow> (cell \<Rightarrow> real option) \<Rightarrow> sheet \<Rightarrow> error + vendor list" where
  "frame_eda P fmt to_numeric sh =
     (if ncols sh < 7 then Inl ValueError
      else
        let cat = strip (sheet_name sh) in
        case apply_rows (\<lambda>row. lower_mask (astype_str P fmt (cell_at row 2))) (body sh) of
          Inl e \<Rightarrow> Inl e
        | Inr m \<Rightarrow>
            if body sh = [] then Inl KeyError
            else Inr (map (cleaned_row P fmt to_numeric cat) (select_rows (body sh) m)))"

text \<open>The same pass in \<^verbatim>\<open>dashboard.py\<close>: the lambda of the mask takes the cell as read
  and applies Python's \<^verbatim>\<open>str(x)\<close> itself, so it raises on no cell; and the label column
  is \<^verbatim>\<open>df['Category'].map(CATEGORY_NAMES)\<close>, missing for a code outside the dictionary.\<close>

definition frame_dashboard ::
  "pandas \<Rightarrow> (real \<Rightarrow> string) \<Rightarrow> (cell \<Rightarrow> real option) \<Rightarrow> sheet \<Rightarrow> error + dvendor list" where
  "frame_dashboard P fmt to_numeric sh =
     (if ncols sh < 7 then Inl ValueError
      else
        let cat = strip (sheet_name sh);
            m = map (\<lambda>row. mask (py_str fmt (cell_at row 2))) (body sh)
        in if body sh = [] then Inl KeyError
           else Inr (map (\<lambda>row. vendor.extend (cleaned_row P fmt to_numeric cat row)
                                   (dvendor.fields (map_of CATEGORY_NAMES cat)))
                         (select_rows (body sh) m)))"


text \<open>The loop over \<^verbatim>\<open>xl.sheet_names\<close>: a skipped sheet is passed over, the first sheet
  whose pass raises ends the load, every other sheet appends its frame.\<close>

fun read_sheets :: "(sheet \<Rightarrow> error + 'a list) \<Rightarrow> sheet list \<Rightarrow> error + 'a list list" where
  "read_sheets frame [] = Inr []"
| "read_sheets frame (sh # shs) =
     (if skipped sh then read_sheets frame shs
      else case frame sh of
             Inl e \<Rightarrow> Inl e
           | Inr df \<Rightarrow> (case read_sheets frame shs of
                          Inl e \<Rightarrow> Inl e
                        | Inr frames \<Rightarrow> Inr (df # frames)))"

text \<open>\<^verbatim>\<open>pd.concat(frames, ignore_index=True)\<close> raises ValueError on an empty list.\<close>

definition pd_concat :: "'a list list \<Rightarrow> error + 'a list" where
  "pd_concat frames = (if frames = [] then Inl ValueError else Inr (concat frames))"

definition load_with :: "(sheet \<Rightarrow> error + 'a list) \<Rightarrow> workbook \<Rightarrow> error + 'a list" where
  "load_with frame wb =
     (case wb of
        None \<Rightarrow> Inl OpenError
      | Some shs \<Rightarrow> (case read_sheets frame shs of
                       Inl e \<Rightarrow> Inl e
                     | Inr frames \<Rightarrow> pd_concat frames))"

definition load_vendor_data ::
  "pandas \<Rightarrow> (real \<Rightarrow> string) \<Rightarrow> (cell \<Rightarrow> real option) \<Rightarrow> workbook \<Rightarrow> error + vendor list" where
  "load_vendor_data P fmt to_numeric wb = load_with (frame_eda P fmt to_numeric) wb"

definition load_vendor_data_dashboard ::
  "pandas \<Rightarrow> (real \<Rightarrow> string) \<Rightarrow> (cell \<Rightarrow> real option) \<Rightarrow> workbook \<Rightarrow> error + dvendor list" where
  "load_vendor_data_dashboard P fmt to_numeric wb = load_with (frame_dashboard P fmt to_numeric) wb"


text \<open>Sample parameters for concrete runs: a float printed as the empty string, and a
  coercion that keeps numeric cells and turns every other cell into a missing value.\<close>

definition fmt_blank :: "real \<Rightarrow> string" where
  "fmt_blank x = []"

fun numeric_only :: "cell \<Rightarrow> real option" where
  "numeric_only (Num x) = Some x"
| "numeric_only c = None"

text \<open>The sheets a load does not skip, in workbook order.\<close>

definition retained :: "sheet list \<Rightarrow> sheet list" where
  "retained shs = filter (\<lambda>sh. \<not> skipped sh) shs"

text \<open>In the words of the amended failure conditions: what makes the pass over one
  retained sheet fail, and the failure of the first retained sheet that has one.\<close>

definition missing_company :: "sheet \<Rightarrow> bool" where
  "missing_company sh = list_ex (\<lambda>row. cell_at row 2 = NaN) (body sh)"

definition sheet_failure :: "pandas \<Rightarrow> sheet \<Rightarrow> error option" where
  "sheet_failure P sh =
     (if ncols sh < 7 then Some ValueError
      else if P = From3 \<and> missing_company sh then Some AttributeError
      else if body sh = [] then Some KeyError
      else None)"

fun first_failure :: "pandas \<Rightarrow> sheet list \<Rightarrow> error option" where
  "first_failure P [] = None"
| "first_failure P (sh # shs) =
     (case sheet_failure P sh of Some e \<Rightarrow> Some e | None \<Rightarrow> first_failure P shs)"

text \<open>A frame with fewer than the seven columns that the loaders name.\<close>

definition too_few_columns :: "sheet \<Rightarrow> bool" where
  "too_few_columns sh = (ncols sh < 7)"

text \<open>Sample workbooks.  The first follows the scenario of a sheet \<^verbatim>\<open>ITE\<close> with three
  rows: a commitment of 0.4, a boilerplate company, and an empty commitment.\<close>

definition sheet_ITE :: sheet where
  "sheet_ITE =
     \<lparr>sheet_name = ''ITE '', ncols = 7,
      body = [[Txt ''ITE01'', Txt ''Ann Lee'', Txt '' Acme Corp '', Txt ''Sales'', NaN, NaN, Num (2/5)],
              [Txt ''ITE01'', NaN, Txt ''See Master Contract list'', NaN, NaN, NaN, NaN],
              [Txt ''ITE02'', Txt ''Bo Diaz'', Txt ''Bolt LLC'', NaN, NaN, NaN, NaN]]\<rparr>"

definition sheet_Abbreviations :: sheet where
  "sheet_Abbreviations =
     \<lparr>sheet_name = ''Abbreviations '', ncols = 7,
      body = [[Txt ''ITE'', Txt ''IT Equipment'', NaN, NaN, NaN, NaN, NaN]]\<rparr>"

definition sheet_narrow :: sheet where
  "sheet_narrow =
     \<lparr>sheet_name = ''FAC'', ncols = 3,
      body = [[Txt ''FAC01'', Txt ''Cy Roe'', Txt ''Cyan Inc'']]\<rparr>"

text \<open>A sheet with the seven columns and a header row only, and a sheet with a row whose
  company cell is empty.\<close>

definition sheet_header_only :: sheet where
  "sheet_header_only = \<lparr>sheet_name = ''MED'', ncols = 7, body = []\<rparr>"

definition sheet_blank_company :: sheet where
  "sheet_blank_company =
     \<lparr>sheet_name = ''OFF'', ncols = 7,
      body = [[Txt ''OFF01'', Txt ''Eve Poe'', NaN, NaN, NaN, NaN, Num (1/4)]]\<rparr>"

text \<open>A sheet whose only company cell holds the words \<^verbatim>\<open>Master\<close> and \<^verbatim>\<open>Contract\<close>
  on two lines.\<close>

definition sheet_two_lines :: sheet where
  "sheet_two_lines =
     \<lparr>sheet_name = ''ITS'', ncols = 7,
      body = [[Txt ''ITS07'', Txt ''Di Wu'', Txt (''Master'' @ [newline] @ ''Contract''),
               NaN, NaN, NaN, Num (1/2)]]\<rparr>"

definition workbook_sample :: workbook where
  "workbook_sample = Some [sheet_Abbreviations, sheet_ITE]"

definition vendor_Acme :: vendor where
  "vendor_Acme = \<lparr>Contract_Code = Some ''ITE01'', Name = Some ''Ann Lee'',
            Company = Some ''Acme Corp'', Role = Txt ''Sales'', Email = NaN, Phone = NaN,
            SDO_Commitment_Pct = Some (2/5), Category = ''ITE''\<rparr>"

definition vendor_Bolt :: vendor where
  "vendor_Bolt = \<lparr>Contract_Code = Some ''ITE02'', Name = Some ''Bo Diaz'',
            Company = Some ''Bolt LLC'', Role = NaN, Email = NaN, Phone = NaN,
            SDO_Commitment_Pct = None, Category = ''ITE''\<rparr>"

text \<open>The label column of the dashboard added to a row.\<close>

definition with_label :: "vendor \<Rightarrow> dvendor" where
  "with_label r = vendor.extend r (dvendor.fields (map_of CATEGORY_NAMES (Category r)))"

section \<open>The categorized-company workbook and its loaders\<close>

text \<open>A row of the categorized-company table: the dictionary with the keys
  \<^verbatim>\<open>Industry\<close>, \<^verbatim>\<open>Company\<close> and \<^verbatim>\<open>Type\<close>.\<close>

record categorized =
  Industry :: string
  Listed_Company :: string
  Type :: string

text \<open>\<^verbatim>\<open>df.iloc[2:, i]\<close> on a sheet read without a header: the cells of column \<open>i\<close>
  from the third row on.  A scalar column position outside the frame raises IndexError.\<close>

definition iloc_from2 :: "sheet \<Rightarrow> nat \<Rightarrow> error + cell list" where
  "iloc_from2 sh i =
     (if i < ncols sh then Inr (map (\<lambda>row. cell_at row i) (drop 2 (body sh)))
      else Inl IndexError)"

text \<open>\<^verbatim>\<open>.dropna().astype(str).str.strip().tolist()\<close>\<close>

definition company_names :: "(real \<Rightarrow> string) \<Rightarrow> cell list \<Rightarrow> string list" where
  "company_names fmt cells = map (\<lambda>c. strip (py_str fmt c)) (filter (\<lambda>c. c \<noteq> NaN) cells)"

text \<open>The inner loops: \<^verbatim>\<open>if company and company != 'nan'\<close> appends one dictionary.\<close>

definition bucket :: "string \<Rightarrow> string \<Rightarrow> string list \<Rightarrow> categorized list" where
  "bucket industry typ companies =
     map (\<lambda>company. \<lparr>Industry = industry, Listed_Company = company, Type = typ\<rparr>)
       (filter (\<lambda>company. company \<noteq> [] \<and> company \<noteq> ''nan'') companies)"

text \<open>One pass of the loop body in \<^verbatim>\<open>eda_analysis.py\<close>: the three columns are
  extracted first, then the three buckets are appended.\<close>

definition sheet_companies_eda :: "(real \<Rightarrow> string) \<Rightarrow> sheet \<Rightarrow> error + categorized list" where
  "sheet_companies_eda fmt sh =
     (let industry = strip (sheet_name sh) in
      case iloc_from2 sh 1 of Inl e \<Rightarrow> Inl e | Inr c1 \<Rightarrow>
      (case iloc_from2 sh 2 of Inl e \<Rightarrow> Inl e | Inr c2 \<Rightarrow>
      (case iloc_from2 sh 3 of Inl e \<Rightarrow> Inl e | Inr c3 \<Rightarrow>
         Inr (bucket industry ''National & Local'' (company_names fmt c1)
              @ bucket industry ''Local'' (company_names fmt c2)
              @ bucket industry ''SGC Target'' (company_names fmt c3)))))"

text \<open>The same pass in \<^verbatim>\<open>dashboard.py\<close> and \<^verbatim>\<open>generate_report.py\<close>: a loop over
  the pairs of column position and type, each extracting its column and appending.\<close>

fun buckets :: "(real \<Rightarrow> string) \<Rightarrow> sheet \<Rightarrow> (nat \<times> string) list \<Rightarrow> error + categorized list" where
  "buckets fmt sh [] = Inr []"
| "buckets fmt sh ((col_idx, typ) # rest) =
     (case iloc_from2 sh col_idx of
        Inl e \<Rightarrow> Inl e
      | Inr cells \<Rightarrow>
          (case buckets fmt sh rest of
             Inl e \<Rightarrow> Inl e
           | Inr others \<Rightarrow> Inr (bucket (strip (sheet_name sh)) typ (company_names fmt cells) @ others)))"

definition sheet_companies_dashboard :: "(real \<Rightarrow> string) \<Rightarrow> sheet \<Rightarrow> error + categorized list" where
  "sheet_companies_dashboard fmt sh =
     buckets fmt sh [(1, ''National & Local''), (2, ''Local''), (3, ''SGC Target'')]"

text \<open>The loop over all sheets (none is skipped): the first sheet whose pass raises ends
  the load.\<close>

fun all_sheets :: "(sheet \<Rightarrow> error + 'a list) \<Rightarrow> sheet list \<Rightarrow> error + 'a list" where
  "all_sheets pass [] = Inr []"
| "all_sheets pass (sh # shs) =
     (case pass sh of
        Inl e \<Rightarrow> Inl e
      | Inr rs \<Rightarrow> (case all_sheets pass shs of
                     Inl e \<Rightarrow> Inl e
                   | Inr others \<Rightarrow> Inr (rs @ others)))"

text \<open>\<^verbatim>\<open>load_categorized_companies\<close> of \<^verbatim>\<open>eda_analysis.py\<close>.  Its closing print reads
  \<^verbatim>\<open>combined['Industry']\<close>, a column that \<^verbatim>\<open>pd.DataFrame([])\<close> does not have: with
  no record at all it raises KeyError.\<close>

definition load_categorized_companies :: "(real \<Rightarrow> string) \<Rightarrow> workbook \<Rightarrow> error + categorized list" where
  "load_categorized_companies fmt wb =
     (case wb of
        None \<Rightarrow> Inl OpenError
      | Some shs \<Rightarrow>
          (case all_sheets (sheet_companies_eda fmt) shs of
             Inl e \<Rightarrow> Inl e
           | Inr frames \<Rightarrow> if frames = [] then Inl KeyError else Inr frames))"

text \<open>\<^verbatim>\<open>load_categorized_companies\<close> of \<^verbatim>\<open>dashboard.py\<close> and \<^verbatim>\<open>generate_report.py\<close>.\<close>

definition load_categorized_companies_dashboard ::
  "(real \<Rightarrow> string) \<Rightarrow> workbook \<Rightarrow> error + categorized list" where
  "load_categorized_companies_dashboard fmt wb =
     (case wb of
        None \<Rightarrow> Inl OpenError
      | Some shs \<Rightarrow> all_sheets (sheet_companies_dashboard fmt) shs)"

text \<open>Sample sheets: an industry with two header rows and two rows of companies in four
  columns, and the same industry with only three columns.\<close>

definition sheet_Finance :: sheet where
  "sheet_Finance =
     \<lparr>sheet_name = ''Finance'', ncols = 4,
      body = [[NaN, Txt ''National & Local'', Txt ''Local'', Txt ''SGC Target''],
              [Txt ''Finance'', NaN, NaN, NaN],
              [NaN, Txt ''A'', Txt ''X'', NaN],
              [NaN, Txt ''B'', NaN, Txt ''Y'']]\<rparr>"

definition sheet_Finance3 :: sheet where
  "sheet_Finance3 =
     \<lparr>sheet_name = ''Finance'', ncols = 3,
      body = [[NaN, Txt ''National & Local'', Txt ''Local''],
              [Txt ''Finance'', NaN, NaN],
              [NaN, Txt ''A'', Txt ''X''],
              [NaN, Txt ''B'', NaN]]\<rparr>"

definition sheet_Retail2 :: sheet where
  "sheet_Retail2 =
     \<lparr>sheet_name = ''Retail'', ncols = 2,
      body = [[NaN, Txt ''National & Local''],
              [Txt ''Retail'', NaN],
              [NaN, Txt ''C'']]\<rparr>"

section \<open>Capping\<close>

text \<open>\<^verbatim>\<open>Series.clip(upper=1.0)\<close> on one value: the smaller of the value and 1.0.
  The scripts apply it only to commitments that are present and positive.\<close>

definition cap :: "real \<Rightarrow> real" where
  "cap x = min x 1"

section \<open>Views on the vendor table\<close>

text \<open>
  \<^verbatim>\<open>dropna(subset=[...])\<close> on the commitment column keeps the rows whose commitment is
  present; the model pairs each kept row with that value.  \<^verbatim>\<open>df[df[...] > 0]\<close> keeps
  the positive ones.
\<close>

definition dropna_sdo :: "'a vendor_scheme list \<Rightarrow> ('a vendor_scheme \<times> real) list" where
  "dropna_sdo df =
     concat (map (\<lambda>r. case SDO_Commitment_Pct r of None \<Rightarrow> [] | Some x \<Rightarrow> [(r, x)]) df)"

definition positive :: "('r \<times> real) list \<Rightarrow> ('r \<times> real) list" where
  "positive df = filter (\<lambda>(r, x). 0 < x) df"

text \<open>The SDO-eligible rows in the words of the specification: the commitment is present
  and greater than zero.\<close>

definition sdo_eligible :: "'a vendor_scheme \<Rightarrow> bool" where
  "sdo_eligible r = (case SDO_Commitment_Pct r of None \<Rightarrow> False | Some x \<Rightarrow> 0 < x)"

text \<open>The module-level table \<^verbatim>\<open>vendor_with_sdo\<close> of \<^verbatim>\<open>dashboard.py\<close>: each eligible
  row paired with its column \<^verbatim>\<open>SDO_Capped\<close>.\<close>

definition vendor_with_sdo :: "dvendor list \<Rightarrow> (dvendor \<times> real) list" where
  "vendor_with_sdo vendor_df = map (\<lambda>(r, x). (r, cap x)) (positive (dropna_sdo vendor_df))"

text \<open>\<^verbatim>\<open>groupby\<close>: the distinct keys in ascending order, and the rows of one key in
  table order.  \<^verbatim>\<open>nunique\<close> counts the distinct values that are present,
  \<^verbatim>\<open>mean\<close> averages.\<close>

definition group_keys :: "('r \<Rightarrow> 'k::linorder) \<Rightarrow> 'r list \<Rightarrow> 'k list" where
  "group_keys key df = sort (remdups (map key df))"

definition group_rows :: "('r \<Rightarrow> 'k) \<Rightarrow> 'r list \<Rightarrow> 'k \<Rightarrow> 'r list" where
  "group_rows key df k = filter (\<lambda>r. key r = k) df"

definition dropna :: "'v option list \<Rightarrow> 'v list" where
  "dropna vs = concat (map (\<lambda>v. case v of None \<Rightarrow> [] | Some x \<Rightarrow> [x]) vs)"

definition nunique :: "'v option list \<Rightarrow> nat" where
  "nunique vs = length (remdups (dropna vs))"

definition mean :: "real list \<Rightarrow> real" where
  "mean vs = sum_list vs / real (length vs)"

subsection \<open>BQ6: distribution and outliers\<close>

text \<open>
  \<^verbatim>\<open>bq6_sdo_distribution_outliers\<close> up to the data it plots: the categories with enough
  eligible rows and the eligible rows of those categories, each with its raw and its
  capped commitment.  The source fixes the threshold at 10; it is a parameter here.
\<close>

definition bq6_at ::
  "nat \<Rightarrow> 'a vendor_scheme list \<Rightarrow> string list \<times> ('a vendor_scheme \<times> real \<times> real) list" where
  "bq6_at t vendor_df =
     (let sdo_df = map (\<lambda>(r, x). (r, x, cap x)) (positive (dropna_sdo vendor_df));
          cat_counts = map (\<lambda>c. (c, length (group_rows (\<lambda>row. Category (fst row)) sdo_df c)))
                           (group_keys (\<lambda>row. Category (fst row)) sdo_df);
          valid_cats = map fst (filter (\<lambda>(c, n). t \<le> n) cat_counts);
          sdo_valid = filter (\<lambda>row. Category (fst row) \<in> set valid_cats) sdo_df
      in (valid_cats, sdo_valid))"

definition bq6_sdo_distribution_outliers ::
  "'a vendor_scheme list \<Rightarrow> string list \<times> ('a vendor_scheme \<times> real \<times> real) list" where
  "bq6_sdo_distribution_outliers vendor_df = bq6_at 10 vendor_df"

text \<open>\<^verbatim>\<open>make_bq6_chart\<close> of the dashboard, on \<^verbatim>\<open>vendor_with_sdo\<close>.\<close>

definition make_bq6_chart_at ::
  "nat \<Rightarrow> (dvendor \<times> real) list \<Rightarrow> string list \<times> (dvendor \<times> real) list" where
  "make_bq6_chart_at t vws =
     (let cat_counts = map (\<lambda>c. (c, length (group_rows (\<lambda>row. Category (fst row)) vws c)))
                           (group_keys (\<lambda>row. Category (fst row)) vws);
          valid_cats = map fst (filter (\<lambda>(c, n). t \<le> n) cat_counts);
          df = filter (\<lambda>row. Category (fst row) \<in> set valid_cats) vws
      in (valid_cats, df))"

definition make_bq6_chart :: "(dvendor \<times> real) list \<Rightarrow> string list \<times> (dvendor \<times> real) list" where
  "make_bq6_chart vws = make_bq6_chart_at 10 vws"

subsection \<open>BQ8: vendor count against average commitment\<close>

text \<open>A row of the per-category statistics: category, number of distinct companies,
  mean commitment.\<close>

type_synonym cat_stat = "string \<times> nat \<times> real"



text \<open>The statistics of \<^verbatim>\<open>bq8_vendor_count_vs_sdo\<close> in \<^verbatim>\<open>eda_analysis.py\<close>: eligible
  rows whose commitment is at most 1.0, grouped by category.\<close>

definition bq8_cat_stats :: "'a vendor_scheme list \<Rightarrow> cat_stat list" where
  "bq8_cat_stats vendor_df =
     (let sdo_df = filter (\<lambda>(r, x). x \<le> 1) (positive (dropna_sdo vendor_df))
      in map (\<lambda>c. let g = group_rows (\<lambda>row. Category (fst row)) sdo_df c
                   in (c, nunique (map (\<lambda>row. Company (fst row)) g), mean (map snd g)))
             (group_keys (\<lambda>row. Category (fst row)) sdo_df))"


text \<open>The statistics of \<^verbatim>\<open>make_bq8_chart\<close> in \<^verbatim>\<open>dashboard.py\<close>: the rows of
  \<^verbatim>\<open>vendor_with_sdo\<close> whose capped commitment is at most 1.0, grouped by category, with
  the mean of the capped commitment.\<close>

definition make_bq8_stats :: "(dvendor \<times> real) list \<Rightarrow> cat_stat list" where
  "make_bq8_stats vws =
     (let df = filter (\<lambda>(r, capped). capped \<le> 1) vws
      in map (\<lambda>c. let g = group_rows (\<lambda>row. Category (fst row)) df c
                   in (c, nunique (map (\<lambda>row. Company (fst row)) g), mean (map snd g)))
             (group_keys (\<lambda>row. Category (fst row)) df))"




definition commitment :: "'a vendor_scheme \<Rightarrow> real" where
  "commitment r = (case SDO_Commitment_Pct r of None \<Rightarrow> 0 | Some x \<Rightarrow> x)"



text \<open>A table on which the dashboard and the EDA script see the same qualifying rows: no
  commitment above 1.0.\<close>

definition within_one :: "'a vendor_scheme \<Rightarrow> bool" where
  "within_one r = (case SDO_Commitment_Pct r of None \<Rightarrow> True | Some x \<Rightarrow> x \<le> 1)"

subsection \<open>BQ1: top IT companies by commitment\<close>

text \<open>
  \<^verbatim>\<open>sort_values\<close> belongs to pandas and sorts with its default kind, quicksort, which
  is not a stable sort: the model takes the sort as a parameter and asks of it only that
  its result is a rearrangement of the rows in the order of the column.  Where rows with
  equal values end up is left open.
\<close>

definition sorts_by :: "('g \<Rightarrow> 'g \<Rightarrow> bool) \<Rightarrow> ('g list \<Rightarrow> 'g list) \<Rightarrow> bool" where
  "sorts_by ord srt = (\<forall>xs. mset (srt xs) = mset xs \<and> sorted_wrt ord (srt xs))"

text \<open>Two sorts that meet this: the stable descending and ascending sorts by a key.\<close>

definition stable_descending :: "('g \<Rightarrow> real) \<Rightarrow> 'g list \<Rightarrow> 'g list" where
  "stable_descending key xs = rev (sort_key key (rev xs))"

definition stable_ascending :: "('g \<Rightarrow> real) \<Rightarrow> 'g list \<Rightarrow> 'g list" where
  "stable_ascending key xs = sort_key key xs"

text \<open>\<^verbatim>\<open>groupby\<close> on two columns: each row with its key and its value; a row in which
  a key column is missing belongs to no group.\<close>

definition keyed :: "('r \<Rightarrow> 'k option) \<Rightarrow> ('r \<times> real) list \<Rightarrow> ('k \<times> 'r \<times> real) list" where
  "keyed key df = concat (map (\<lambda>(r, v). case key r of None \<Rightarrow> [] | Some k \<Rightarrow> [(k, r, v)]) df)"

definition company_category :: "'a vendor_scheme \<Rightarrow> (string \<times> string) option" where
  "company_category r = (case Company r of None \<Rightarrow> None | Some c \<Rightarrow> Some (c, Category r))"

definition company_label :: "dvendor \<Rightarrow> (string \<times> string) option" where
  "company_label r =
     (case Company r of
        None \<Rightarrow> None
      | Some c \<Rightarrow> (case Category_Label r of None \<Rightarrow> None | Some l \<Rightarrow> Some (c, l)))"

text \<open>A row of \<^verbatim>\<open>company_sdo\<close> in \<^verbatim>\<open>eda_analysis.py\<close>: the group key (company,
  category), \<^verbatim>\<open>SDO_Max\<close> and \<^verbatim>\<open>Contract_Count\<close>.\<close>

type_synonym company_sdo = "(string \<times> string) \<times> real \<times> nat"

definition SDO_Max :: "company_sdo \<Rightarrow> real" where
  "SDO_Max g = fst (snd g)"

definition Contract_Count :: "company_sdo \<Rightarrow> nat" where
  "Contract_Count g = snd (snd g)"

text \<open>\<^verbatim>\<open>bq1_it_sector_top_sdo\<close> up to the table it plots.  The maximum is taken over the
  commitments as loaded.\<close>

definition bq1_company_sdo ::
  "(company_sdo list \<Rightarrow> company_sdo list) \<Rightarrow> 'a vendor_scheme list \<Rightarrow> company_sdo list" where
  "bq1_company_sdo sort_values vendor_df =
     (let it_df = filter (\<lambda>r. Category r \<in> set [''ITE'', ''ITS'', ''ITT'']) vendor_df;
          it_with_sdo = positive (dropna_sdo it_df);
          groups = keyed company_category it_with_sdo
      in sort_values
           (map (\<lambda>k. let g = group_rows fst groups k
                      in (k, Max (set (map (\<lambda>row. snd (snd row)) g)),
                          nunique (map (\<lambda>row. Contract_Code (fst (snd row))) g)))
                (group_keys fst groups)))"

definition bq1_it_sector_top_sdo ::
  "(company_sdo list \<Rightarrow> company_sdo list) \<Rightarrow> 'a vendor_scheme list \<Rightarrow> company_sdo list" where
  "bq1_it_sector_top_sdo sort_values vendor_df = take 15 (bq1_company_sdo sort_values vendor_df)"

text \<open>
  \<^verbatim>\<open>make_bq1_chart\<close> of the dashboard, on \<^verbatim>\<open>vendor_with_sdo\<close>: the rows of the chosen
  categories are grouped by company and category label, the maximum is taken over the
  capped commitments, the groups are sorted ascending and \<^verbatim>\<open>tail(15)\<close> keeps the last
  fifteen.
\<close>

definition it_cats :: "string \<Rightarrow> string list" where
  "it_cats it_filter = (if it_filter = ''All'' then [''ITE'', ''ITS'', ''ITT''] else [it_filter])"

definition make_bq1_groups ::
  "(((string \<times> string) \<times> real) list \<Rightarrow> ((string \<times> string) \<times> real) list) \<Rightarrow> string
     \<Rightarrow> (dvendor \<times> real) list \<Rightarrow> ((string \<times> string) \<times> real) list" where
  "make_bq1_groups sort_values it_filter vws =
     (let df = filter (\<lambda>row. Category (fst row) \<in> set (it_cats it_filter)) vws;
          groups = keyed company_label df
      in sort_values
           (map (\<lambda>k. (k, Max (set (map (\<lambda>row. snd (snd row)) (group_rows fst groups k)))))
                (group_keys fst groups)))"

definition make_bq1_chart ::
  "(((string \<times> string) \<times> real) list \<Rightarrow> ((string \<times> string) \<times> real) list) \<Rightarrow> string
     \<Rightarrow> (dvendor \<times> real) list \<Rightarrow> ((string \<times> string) \<times> real) list" where
  "make_bq1_chart sort_values it_filter vws =
     (let sorted = make_bq1_groups sort_values it_filter vws
      in drop (length sorted - 15) sorted)"

text \<open>In the words of the specification: the SDO-eligible rows of the given categories
  that belong to one group, their capped commitments, and their contract codes.\<close>

definition group_members ::
  "('a vendor_scheme \<Rightarrow> 'k option) \<Rightarrow> 'a vendor_scheme list \<Rightarrow> string list \<Rightarrow> 'k \<Rightarrow> 'a vendor_scheme list" where
  "group_members key df cats k =
     filter (\<lambda>r. sdo_eligible r \<and> Category r \<in> set cats \<and> key r = Some k) df"

definition capped_of_group ::
  "('a vendor_scheme \<Rightarrow> 'k option) \<Rightarrow> 'a vendor_scheme list \<Rightarrow> string list \<Rightarrow> 'k \<Rightarrow> real list" where
  "capped_of_group key df cats k = map (\<lambda>r. min (commitment r) 1) (group_members key df cats k)"

definition codes_of_group ::
  "('a vendor_scheme \<Rightarrow> 'k option) \<Rightarrow> 'a vendor_scheme list \<Rightarrow> string list \<Rightarrow> 'k \<Rightarrow> string option list" where
  "codes_of_group key df cats k = map Contract_Code (group_members key df cats k)"

definition group_keys_of ::
  "('a vendor_scheme \<Rightarrow> 'k option) \<Rightarrow> 'a vendor_scheme list \<Rightarrow> string list \<Rightarrow> 'k set" where
  "group_keys_of key df cats =
     set (dropna (map key (filter (\<lambda>r. sdo_eligible r \<and> Category r \<in> set cats) df)))"

subsection \<open>Sample vendor tables\<close>

text \<open>Ten rows of one company in \<^verbatim>\<open>ITE\<close> with a commitment of 0.4, one row in
  \<^verbatim>\<open>FAC\<close> with a commitment of 1.5, and one row in \<^verbatim>\<open>ITE\<close> without a commitment;
  and the same table with the labels of the dashboard.\<close>

definition vendor_Cyan :: vendor where
  "vendor_Cyan = \<lparr>Contract_Code = Some ''FAC01'', Name = Some ''Cy Roe'',
            Company = Some ''Cyan Inc'', Role = NaN, Email = NaN, Phone = NaN,
            SDO_Commitment_Pct = Some (3/2), Category = ''FAC''\<rparr>"

definition vendors_sample :: "vendor list" where
  "vendors_sample = replicate 10 vendor_Acme @ [vendor_Cyan, vendor_Bolt]"

definition dvendors_sample :: "dvendor list" where
  "dvendors_sample = map with_label vendors_sample"




text \<open>The same with a second company in \<^verbatim>\<open>ITE\<close>.\<close>

definition vendor_Hale :: vendor where
  "vendor_Hale = \<lparr>Contract_Code = Some ''ITE05'', Name = Some ''Hal Ito'',
            Company = Some ''Hale Tech'', Role = NaN, Email = NaN, Phone = NaN,
            SDO_Commitment_Pct = Some (1/5), Category = ''ITE''\<rparr>"


text \<open>Rows of the IT categories: one above 1.0, and one more.\<close>

definition vendor_Fern :: vendor where
  "vendor_Fern = \<lparr>Contract_Code = Some ''ITS03'', Name = Some ''Flo Ray'',
            Company = Some ''Fern Systems'', Role = NaN, Email = NaN, Phone = NaN,
            SDO_Commitment_Pct = Some (3/2), Category = ''ITS''\<rparr>"

definition vendor_Gale :: vendor where
  "vendor_Gale = \<lparr>Contract_Code = Some ''ITT04'', Name = Some ''Gus Orr'',
            Company = Some ''Gale Net'', Role = NaN, Email = NaN, Phone = NaN,
            SDO_Commitment_Pct = Some (1/2), Category = ''ITT''\<rparr>"

definition vendors_IT :: "vendor list" where
  "vendors_IT = [vendor_Acme, vendor_Bolt, vendor_Gale, vendor_Hale, vendor_Cyan]"

text \<open>Sixteen companies in \<^verbatim>\<open>ITE\<close>, one row each, with commitments from 0.05 to 0.8.\<close>

definition vendor_numbered :: "char \<Rightarrow> real \<Rightarrow> vendor" where
  "vendor_numbered c x = \<lparr>Contract_Code = Some (''ITE'' @ [c]), Name = None,
            Company = Some (''Vendor '' @ [c]), Role = NaN, Email = NaN, Phone = NaN,
            SDO_Commitment_Pct = Some x, Category = ''ITE''\<rparr>"

definition vendors_sixteen :: "vendor list" where
  "vendors_sixteen =
     map (\<lambda>(c, x). vendor_numbered c x)
       (zip ''ABCDEFGHIJKLMNOP''
            [1/20, 2/20, 3/20, 4/20, 5/20, 6/20, 7/20, 8/20, 9/20, 10/20, 11/20, 12/20, 13/20,
             14/20, 15/20, 16/20])"

section \<open>Loading: auxiliary facts\<close>

text \<open>The keywords in small letters, computed once, give the mask an equation that
  evaluates quickly.\<close>

lemma lowered_keywords:
  "map lower metadata_keywords =
     [''master contract'', ''solicitation enabled'', ''master mbpo'',
      ''bid and contract'', ''category and vendor'', ''category development'',
      ''mass gov'', ''osd help desk'', ''n/a'']"
  by code_simp

lemma mask_code [code]:
  "mask x = (\<not> list_ex (\<lambda>k. str_in k (lower x))
     [''master contract'', ''solicitation enabled'', ''master mbpo'',
      ''bid and contract'', ''category and vendor'', ''category development'',
      ''mass gov'', ''osd help desk'', ''n/a''])"
  unfolding lowered_keywords [symmetric]
  by (simp add: mask_def mentions_def list_ex_iff)

lemma starts_with_iff: "starts_with k x \<longleftrightarrow> (\<exists>s. x = k @ s)"
  by (induction k x rule: starts_with.induct) auto

lemma str_in_iff: "str_in k x \<longleftrightarrow> (\<exists>p s. x = p @ k @ s)"
proof (induction x)
  case Nil
  then show ?case by simp
next
  case (Cons c cs)
  show ?case
  proof
    assume "str_in k (c # cs)"
    then consider "starts_with k (c # cs)" | "str_in k cs" by auto
    then show "\<exists>p s. c # cs = p @ k @ s"
    proof cases
      case 1
      then obtain s where "c # cs = k @ s" using starts_with_iff by blast
      then have "c # cs = [] @ k @ s" by simp
      then show ?thesis by blast
    next
      case 2
      with Cons obtain p s where "cs = p @ k @ s" by blast
      then have "c # cs = (c # p) @ k @ s" by simp
      then show ?thesis by blast
    qed
  next
    assume "\<exists>p s. c # cs = p @ k @ s"
    then obtain p s where ps: "c # cs = p @ k @ s" by blast
    show "str_in k (c # cs)"
    proof (cases p)
      case Nil
      with ps have "starts_with k (c # cs)" using starts_with_iff by auto
      then show ?thesis by simp
    next
      case (Cons a p')
      with ps have "cs = p' @ k @ s" by simp
      with Cons.IH have "str_in k cs" by blast
      then show ?thesis by simp
    qed
  qed
qed

lemma strip_block: "\<exists>p s. x = p @ strip x @ s"
proof -
  let ?d = "dropWhile is_space x"
  have "x = takeWhile is_space x @ ?d" by simp
  moreover have "rev ?d = takeWhile is_space (rev ?d) @ dropWhile is_space (rev ?d)" by simp
  then have "?d = rev (dropWhile is_space (rev ?d)) @ rev (takeWhile is_space (rev ?d))"
    by (metis rev_append rev_rev_ident)
  ultimately have "x = takeWhile is_space x @ strip x @ rev (takeWhile is_space (rev ?d))"
    by (simp add: strip_def)
  then show ?thesis by blast
qed

lemma replace_newline_id: "newline \<notin> set x \<Longrightarrow> replace_newline x = x"
  by (induction x) (auto simp: replace_newline_def)

lemma mentions_strip: "mentions kw (strip x) \<Longrightarrow> mentions kw x"
proof -
  assume "mentions kw (strip x)"
  then obtain p s where a: "lower (strip x) = p @ lower kw @ s"
    by (auto simp: mentions_def str_in_iff)
  obtain p' s' where "x = p' @ strip x @ s'" using strip_block by blast
  then have "lower x = lower p' @ lower (strip x) @ lower s'"
    by (metis lower_def map_append)
  with a have "lower x = (lower p' @ p) @ lower kw @ (s @ lower s')" by simp
  then show ?thesis unfolding mentions_def str_in_iff by blast
qed

lemma mask_clean:
  "newline \<notin> set x \<Longrightarrow> mask x \<Longrightarrow> mask (strip (replace_newline x))"
  by (auto simp: mask_def list_ex_iff replace_newline_id dest: mentions_strip)




lemma read_sheets_Inr_iff:
  "(\<exists>frames. read_sheets frame shs = Inr frames) \<longleftrightarrow> (\<forall>sh\<in>set (retained shs). \<exists>df. frame sh = Inr df)"
  by (induction shs) (auto simp: retained_def split: sum.splits)

lemma read_sheets_Inr_frames:
  "read_sheets frame shs = Inr frames \<Longrightarrow> map frame (retained shs) = map Inr frames"
  by (induction shs arbitrary: frames) (auto simp: retained_def split: sum.splits if_splits)

lemma read_sheets_Inl:
  "read_sheets frame shs = Inl e \<Longrightarrow> \<exists>sh\<in>set (retained shs). frame sh = Inl e"
  by (induction shs) (auto simp: retained_def split: sum.splits if_splits)

lemma load_with_row_origin:
  assumes "load_with frame (Some shs) = Inr rows" and "r \<in> set rows"
  shows "\<exists>sh\<in>set (retained shs). \<exists>df. frame sh = Inr df \<and> r \<in> set df"
proof -
  from assms(1) obtain frames where fr: "read_sheets frame shs = Inr frames" and rows: "rows = concat frames"
    by (auto simp: load_with_def pd_concat_def split: sum.splits if_splits)
  from assms(2) rows obtain df where df: "df \<in> set frames" "r \<in> set df" by auto
  from read_sheets_Inr_frames[OF fr] have "map frame (retained shs) = map Inr frames" .
  then have "Inr df \<in> frame ` set (retained shs)" using df(1)
    by (metis image_eqI list.set_map)
  with df(2) show ?thesis by force
qed

lemma read_sheets_Nil_iff:
  "read_sheets frame shs = Inr frames \<Longrightarrow> (frames = [] \<longleftrightarrow> retained shs = [])"
  by (drule read_sheets_Inr_frames) (metis map_is_Nil_conv)





lemma astype_str_Txt: "astype_str P fmt c = Txt s \<Longrightarrow> s = py_str fmt c"
  by (cases P; cases c) auto

lemma astype_str_missing: "(\<forall>s. astype_str P fmt c \<noteq> Txt s) \<longleftrightarrow> P = From3 \<and> c = NaN"
  by (cases P; cases c) auto

lemma lower_mask_astype:
  "lower_mask (astype_str P fmt c)
     = (if P = From3 \<and> c = NaN then Inl AttributeError else Inr (mask (py_str fmt c)))"
  by (cases P; cases c) auto

lemma apply_rows_all_Inr: "apply_rows (\<lambda>x. Inr (f x)) xs = Inr (map f xs)"
  by (induction xs) auto

lemma apply_rows_Inl:
  "\<exists>x\<in>set xs. f x = Inl e \<Longrightarrow> (\<And>x e'. f x = Inl e' \<Longrightarrow> e' = e) \<Longrightarrow> apply_rows f xs = Inl e"
proof (induction xs)
  case Nil
  then show ?case by simp
next
  case (Cons x xs)
  show ?case
  proof (cases "f x")
    case (Inl e')
    with Cons.prems(2) show ?thesis by simp
  next
    case (Inr y)
    with Cons.prems(1) have "\<exists>x\<in>set xs. f x = Inl e" by auto
    from Cons.IH [OF this Cons.prems(2)] Inr show ?thesis by simp
  qed
qed

lemma eda_mask:
  "apply_rows (\<lambda>row. lower_mask (astype_str P fmt (cell_at row 2))) rows
     = (if P = From3 \<and> list_ex (\<lambda>row. cell_at row 2 = NaN) rows then Inl AttributeError
        else Inr (map (\<lambda>row. mask (py_str fmt (cell_at row 2))) rows))"
proof (cases "P = From3 \<and> list_ex (\<lambda>row. cell_at row 2 = NaN) rows")
  case True
  then have "\<exists>row\<in>set rows. lower_mask (astype_str P fmt (cell_at row 2)) = Inl AttributeError"
    by (auto simp: list_ex_iff lower_mask_astype)
  moreover have "\<And>row e'. lower_mask (astype_str P fmt (cell_at row 2)) = Inl e' \<Longrightarrow> e' = AttributeError"
    by (simp add: lower_mask_astype split: if_splits)
  ultimately have "apply_rows (\<lambda>row. lower_mask (astype_str P fmt (cell_at row 2))) rows = Inl AttributeError"
    by (rule apply_rows_Inl)
  with True show ?thesis by simp
next
  case False
  then have "\<And>row. row \<in> set rows \<Longrightarrow> lower_mask (astype_str P fmt (cell_at row 2))
      = Inr (mask (py_str fmt (cell_at row 2)))"
    by (auto simp: list_ex_iff lower_mask_astype)
  then have "apply_rows (\<lambda>row. lower_mask (astype_str P fmt (cell_at row 2))) rows
      = apply_rows (\<lambda>row. Inr (mask (py_str fmt (cell_at row 2)))) rows"
    by (induction rows) auto
  with False show ?thesis by (simp add: apply_rows_all_Inr)
qed

lemma select_rows_map: "select_rows rows (map p rows) = filter p rows"
  by (induction rows) (auto simp: select_rows_def)

lemma frame_eda_closed:
  "frame_eda P fmt tn sh =
     (case sheet_failure P sh of
        Some e \<Rightarrow> Inl e
      | None \<Rightarrow> Inr (map (cleaned_row P fmt tn (strip (sheet_name sh)))
                       (filter (\<lambda>row. mask (py_str fmt (cell_at row 2))) (body sh))))"
  by (simp add: frame_eda_def sheet_failure_def missing_company_def eda_mask select_rows_map Let_def)


lemma frame_dashboard_closed:
  "frame_dashboard P fmt tn sh =
     (case sheet_failure Before3 sh of
        Some e \<Rightarrow> Inl e
      | None \<Rightarrow> Inr (map (\<lambda>row. vendor.extend (cleaned_row P fmt tn (strip (sheet_name sh)) row)
                                 (dvendor.fields (map_of CATEGORY_NAMES (strip (sheet_name sh)))))
                       (filter (\<lambda>row. mask (py_str fmt (cell_at row 2))) (body sh))))"
  by (simp add: frame_dashboard_def sheet_failure_def select_rows_map Let_def)





lemma load_sample:
  "load_vendor_data Before3 fmt_blank numeric_only workbook_sample = Inr [vendor_Acme, vendor_Bolt]"
  by code_simp





lemma astype_str_present:
  "\<not> (P = From3 \<and> c = NaN) \<Longrightarrow> astype_str P fmt c = Txt (py_str fmt c)"
  by (cases P; cases c) auto

lemma clean_Some: "clean P fmt c = Some s \<Longrightarrow> s = strip (replace_newline (py_str fmt c))"
  by (cases P; cases c) (auto simp: clean_def)

lemma mask_cleaned:
  assumes "mask (py_str fmt c)" and "newline \<notin> set (py_str fmt c)" and "clean P fmt c = Some s"
  shows "mask s"
  using assms mask_clean clean_Some by blast

lemma frame_eda_row_origin:
  assumes "frame_eda P fmt tn sh = Inr df" and "r \<in> set df"
  shows "\<exists>row\<in>set (body sh). mask (py_str fmt (cell_at row 2))
           \<and> Company r = clean P fmt (cell_at row 2)
           \<and> Company r = Some (strip (replace_newline (py_str fmt (cell_at row 2))))"
proof -
  from assms(1) have ok: "sheet_failure P sh = None"
    by (simp add: frame_eda_closed split: option.splits)
  with assms obtain row where row: "row \<in> set (body sh)" "mask (py_str fmt (cell_at row 2))"
    and r: "r = cleaned_row P fmt tn (strip (sheet_name sh)) row"
    by (auto simp: frame_eda_closed)
  from ok row(1) have "\<not> (P = From3 \<and> cell_at row 2 = NaN)"
    by (auto simp: sheet_failure_def missing_company_def list_ex_iff split: if_splits)
  then have "clean P fmt (cell_at row 2) = Some (strip (replace_newline (py_str fmt (cell_at row 2))))"
    by (simp add: clean_def astype_str_present)
  with row r show ?thesis
    by (auto simp: cleaned_row_def)
qed

lemma frame_dashboard_row_origin:
  assumes "frame_dashboard P fmt tn sh = Inr df" and "r \<in> set df"
  shows "\<exists>row\<in>set (body sh). mask (py_str fmt (cell_at row 2))
           \<and> Company r = clean P fmt (cell_at row 2)"
proof -
  from assms obtain row where row: "row \<in> set (body sh)" "mask (py_str fmt (cell_at row 2))"
    and r: "r = vendor.extend (cleaned_row P fmt tn (strip (sheet_name sh)) row)
                  (dvendor.fields (map_of CATEGORY_NAMES (strip (sheet_name sh))))"
    by (auto simp: frame_dashboard_closed split: option.splits)
  from r have "Company r = clean P fmt (cell_at row 2)"
    by (simp add: cleaned_row_def vendor.extend_def)
  with row show ?thesis by blast
qed

lemma retained_Nil: "retained [] = []"
  by (simp add: retained_def)

lemma retained_Cons: "retained (sh # shs) = (if skipped sh then retained shs else sh # retained shs)"
  by (simp add: retained_def)

lemma read_sheets_eda:
  "read_sheets (frame_eda P fmt tn) shs =
     (case first_failure P (retained shs) of
        Some e \<Rightarrow> Inl e
      | None \<Rightarrow> Inr (map (\<lambda>sh. map (cleaned_row P fmt tn (strip (sheet_name sh)))
                               (filter (\<lambda>row. mask (py_str fmt (cell_at row 2))) (body sh)))
                       (retained shs)))"
proof (induction shs)
  case Nil
  then show ?case by (simp add: retained_Nil)
next
  case (Cons sh shs)
  show ?case
  proof (cases "skipped sh")
    case True
    then have r: "retained (sh # shs) = retained shs"
      by (simp add: retained_Cons)
    from True Cons show ?thesis
      unfolding r by simp
  next
    case False
    then have r: "retained (sh # shs) = sh # retained shs"
      by (simp add: retained_Cons)
    show ?thesis
    proof (cases "sheet_failure P sh")
      case None
      with False Cons show ?thesis
        unfolding r by (cases "first_failure P (retained shs)") (simp_all add: frame_eda_closed)
    next
      case (Some e)
      with False show ?thesis
        unfolding r by (simp add: frame_eda_closed)
    qed
  qed
qed

lemma ff_sample: "first_failure Before3 (retained [sheet_Abbreviations, sheet_ITE]) = None
   \<and> retained [sheet_Abbreviations, sheet_ITE] \<noteq> []"
  by code_simp
lemma ff_narrow: "first_failure Before3 (retained [sheet_ITE, sheet_narrow]) = Some ValueError"
  by code_simp
lemma ff_header: "first_failure Before3 (retained [sheet_header_only]) = Some KeyError"
  by code_simp
lemma ff_blank: "first_failure From3 (retained [sheet_blank_company]) = Some AttributeError"
  by code_simp

lemma sheet_companies_eda_narrow:
  "sheet_companies_eda fmt sh = (if ncols sh < 4 then Inl IndexError else
      Inr (bucket (strip (sheet_name sh)) ''National & Local'' (company_names fmt (map (\<lambda>row. cell_at row 1) (drop 2 (body sh))))
              @ bucket (strip (sheet_name sh)) ''Local'' (company_names fmt (map (\<lambda>row. cell_at row 2) (drop 2 (body sh))))
              @ bucket (strip (sheet_name sh)) ''SGC Target'' (company_names fmt (map (\<lambda>row. cell_at row 3) (drop 2 (body sh))))))"
  by (auto simp: sheet_companies_eda_def iloc_from2_def Let_def)

lemma sheet_companies_dashboard_eq: "sheet_companies_dashboard fmt sh = sheet_companies_eda fmt sh"
  by (auto simp: sheet_companies_dashboard_def sheet_companies_eda_def iloc_from2_def Let_def)

lemma sheet_companies_eda_error:
  "sheet_companies_eda fmt sh = Inl e \<Longrightarrow> e = IndexError"
  by (simp add: sheet_companies_eda_narrow split: if_splits)

lemma all_sheets_error:
  assumes "\<And>sh e. pass sh = Inl e \<Longrightarrow> e = err" and "\<exists>sh\<in>set shs. isl (pass sh)"
  shows "all_sheets pass shs = Inl err"
  using assms(2)
proof (induction shs)
  case Nil
  then show ?case by simp
next
  case (Cons sh shs)
  show ?case
  proof (cases "pass sh")
    case (Inl e)
    with assms(1) show ?thesis by simp
  next
    case (Inr rs)
    with Cons.prems have "\<exists>sh\<in>set shs. isl (pass sh)" by auto
    with Cons.IH Inr show ?thesis by simp
  qed
qed

lemma all_sheets_ok:
  "\<forall>sh\<in>set shs. \<not> isl (pass sh) \<Longrightarrow> \<exists>rows. all_sheets pass shs = Inr rows"
  by (induction shs) (auto split: sum.splits)

section \<open>Views: auxiliary facts\<close>

lemma fst_positive_dropna:
  "map fst (positive (dropna_sdo df)) = filter sdo_eligible df"
  by (induction df) (auto simp: positive_def dropna_sdo_def sdo_eligible_def split: option.splits)

lemma set_group_keys [simp]: "set (group_keys key df) = key ` set df"
  by (simp add: group_keys_def)

lemma distinct_group_keys [simp]: "distinct (group_keys key df)"
  by (simp add: group_keys_def)

lemma length_group_rows_map:
  "length (group_rows (\<lambda>row. f (g row)) df c) = length (filter (\<lambda>r. f r = c) (map g df))"
  by (induction df) (auto simp: group_rows_def)

lemma counted_keys:
  "map fst (filter (\<lambda>(c, n). t \<le> n) (map (\<lambda>c. (c, f c)) ks)) = filter (\<lambda>c. t \<le> f c) ks"
  by (induction ks) auto

lemma fst_with_capped:
  "map fst (map (\<lambda>(r, x). (r, x, cap x)) xs) = map fst xs"
  by (induction xs) auto

lemma fst_with_cap:
  "map fst (map (\<lambda>(r, x). (r, cap x)) xs) = map fst xs"
  by (induction xs) auto

lemma fst_vendor_with_sdo: "map fst (vendor_with_sdo df) = filter sdo_eligible df"
  unfolding vendor_with_sdo_def fst_with_cap by (rule fst_positive_dropna)

lemma valid_cats_of_pairs:
  assumes "map fst sdo = filter sdo_eligible df"
  shows "c \<in> set (filter (\<lambda>c. t \<le> length (group_rows (\<lambda>row. Category (fst row)) sdo c))
                      (group_keys (\<lambda>row. Category (fst row)) sdo))
     \<longleftrightarrow> (\<exists>r\<in>set df. sdo_eligible r \<and> Category r = c)
          \<and> t \<le> length (filter (\<lambda>r. Category r = c) (filter sdo_eligible df))"
proof -
  have len: "length (group_rows (\<lambda>row. Category (fst row)) sdo k)
               = length (filter (\<lambda>r. Category r = k) (filter sdo_eligible df))" for k
    using length_group_rows_map [of Category fst sdo k] assms by simp
  have "(\<lambda>row. Category (fst row)) ` set sdo = Category ` set (map fst sdo)"
    by (simp add: image_image)
  then have img: "(\<lambda>row. Category (fst row)) ` set sdo = Category ` set (filter sdo_eligible df)"
    using assms by simp
  have "c \<in> set (filter (\<lambda>c. t \<le> length (group_rows (\<lambda>row. Category (fst row)) sdo c))
                      (group_keys (\<lambda>row. Category (fst row)) sdo))
     \<longleftrightarrow> c \<in> Category ` set (filter sdo_eligible df)
          \<and> t \<le> length (group_rows (\<lambda>row. Category (fst row)) sdo c)"
    unfolding set_filter set_group_keys img by blast
  also have "\<dots> \<longleftrightarrow> (\<exists>r\<in>set df. sdo_eligible r \<and> Category r = c)
          \<and> t \<le> length (filter (\<lambda>r. Category r = c) (filter sdo_eligible df))"
    unfolding len by auto
  finally show ?thesis .
qed

lemma bq6_at_fst:
  "fst (bq6_at t df) =
     filter (\<lambda>c. t \<le> length (group_rows (\<lambda>row. Category (fst row))
                                 (map (\<lambda>(r, x). (r, x, cap x)) (positive (dropna_sdo df))) c))
       (group_keys (\<lambda>row. Category (fst row)) (map (\<lambda>(r, x). (r, x, cap x)) (positive (dropna_sdo df))))"
  by (simp add: bq6_at_def Let_def counted_keys)

lemma bq6_at_snd:
  "snd (bq6_at t df) =
     filter (\<lambda>row. Category (fst row) \<in> set (fst (bq6_at t df)))
       (map (\<lambda>(r, x). (r, x, cap x)) (positive (dropna_sdo df)))"
  by (simp add: bq6_at_def Let_def)

lemma bq6_at_cats:
  "c \<in> set (fst (bq6_at t df)) \<longleftrightarrow>
     (\<exists>r\<in>set df. sdo_eligible r \<and> Category r = c)
     \<and> t \<le> length (filter (\<lambda>r. Category r = c) (filter sdo_eligible df))"
  unfolding bq6_at_fst
proof (rule valid_cats_of_pairs)
  show "map fst (map (\<lambda>(r, x). (r, x, cap x)) (positive (dropna_sdo df))) = filter sdo_eligible df"
    unfolding fst_with_capped by (rule fst_positive_dropna)
qed

lemma make_bq6_fst:
  "fst (make_bq6_chart_at t vws) =
     filter (\<lambda>c. t \<le> length (group_rows (\<lambda>row. Category (fst row)) vws c))
       (group_keys (\<lambda>row. Category (fst row)) vws)"
  by (simp add: make_bq6_chart_at_def Let_def counted_keys)

lemma make_bq6_snd:
  "snd (make_bq6_chart_at t vws) =
     filter (\<lambda>row. Category (fst row) \<in> set (fst (make_bq6_chart_at t vws))) vws"
  by (simp add: make_bq6_chart_at_def Let_def)

lemma make_bq6_cats:
  "c \<in> set (fst (make_bq6_chart_at t (vendor_with_sdo df))) \<longleftrightarrow>
     (\<exists>r\<in>set df. sdo_eligible r \<and> Category r = c)
     \<and> t \<le> length (filter (\<lambda>r. Category r = c) (filter sdo_eligible df))"
  unfolding make_bq6_fst
  by (rule valid_cats_of_pairs) (rule fst_vendor_with_sdo)

lemma few_FAC: "length (filter (\<lambda>r. Category r = ''FAC'') (filter sdo_eligible vendors_sample)) < 10"
  by code_simp
lemma few_FAC_d: "length (filter (\<lambda>r. Category r = ''FAC'') (filter sdo_eligible dvendors_sample)) < 10"
  by code_simp

lemma set_positive_dropna:
  "set (positive (dropna_sdo df)) = {(r, x). r \<in> set df \<and> SDO_Commitment_Pct r = Some x \<and> 0 < x}"
  by (auto simp: positive_def dropna_sdo_def split: option.splits)

lemma length_group_keys: "length (group_keys key df) = card (key ` set df)"
  by (simp add: group_keys_def length_remdups_card_conv)

lemma dashboard_filter_vacuous:
  "filter (\<lambda>(r, capped). capped \<le> 1) (vendor_with_sdo df) = vendor_with_sdo df"
  by (rule filter_True) (auto simp: vendor_with_sdo_def cap_def)












section \<open>BQ1: auxiliary facts\<close>

lemma sorts_by_set: "sorts_by ord srt \<Longrightarrow> set (srt xs) = set xs"
  unfolding sorts_by_def by (metis mset_eq_setD)

lemma sorts_by_length: "sorts_by ord srt \<Longrightarrow> length (srt xs) = length xs"
  unfolding sorts_by_def by (metis mset_eq_length)

lemma sorts_by_sorted: "sorts_by ord srt \<Longrightarrow> sorted_wrt ord (srt xs)"
  unfolding sorts_by_def by blast

lemma sorts_by_distinct_map:
  assumes "sorts_by ord srt" and "distinct (map f xs)"
  shows "distinct (map f (srt xs))"
proof -
  from assms(1) have "mset (srt xs) = mset xs"
    unfolding sorts_by_def by blast
  then have "mset (map f (srt xs)) = mset (map f xs)"
    by (metis mset_map)
  with assms(2) show ?thesis
    by (metis mset_eq_imp_distinct_iff)
qed

lemma stable_descending_sorts: "sorts_by (\<lambda>a b. key b \<le> key a) (stable_descending key)"
proof -
  have "sorted_wrt (\<lambda>a b. key b \<le> key a) (rev (sort_key key ys))" for ys
  proof -
    have "sorted (map key (sort_key key ys))" by (rule sorted_sort_key)
    then have "sorted_wrt (\<lambda>a b. key a \<le> key b) (sort_key key ys)"
      by (simp add: sorted_map)
    then show ?thesis by (simp add: sorted_wrt_rev)
  qed
  then show ?thesis
    by (simp add: sorts_by_def stable_descending_def)
qed

lemma stable_ascending_sorts: "sorts_by (\<lambda>a b. key a \<le> key b) (stable_ascending key)"
proof -
  have "sorted_wrt (\<lambda>a b. key a \<le> key b) (sort_key key ys)" for ys
    using sorted_sort_key [of key ys] by (simp add: sorted_map)
  then show ?thesis
    by (simp add: sorts_by_def stable_ascending_def)
qed

lemma sorted_wrt_take_drop:
  assumes "sorted_wrt ord xs" and "g \<in> set (take n xs)" and "h \<in> set (drop n xs)"
  shows "ord g h"
proof -
  from assms(1) have "sorted_wrt ord (take n xs @ drop n xs)" by simp
  with assms(2,3) show ?thesis
    unfolding sorted_wrt_append by blast
qed

lemma set_minus_take: "set xs - set (take n xs) \<subseteq> set (drop n xs)"
proof -
  have "set xs = set (take n xs) \<union> set (drop n xs)"
    by (metis append_take_drop_id set_append)
  then show ?thesis by blast
qed

lemma set_minus_drop: "set xs - set (drop n xs) \<subseteq> set (take n xs)"
proof -
  have "set xs = set (take n xs) \<union> set (drop n xs)"
    by (metis append_take_drop_id set_append)
  then show ?thesis by blast
qed

lemma eligible_rows:
  "positive (dropna_sdo df) = map (\<lambda>r. (r, commitment r)) (filter sdo_eligible df)"
  by (induction df)
     (auto simp: positive_def dropna_sdo_def sdo_eligible_def commitment_def split: option.splits)

lemma vendor_with_sdo_rows:
  "vendor_with_sdo df = map (\<lambda>r. (r, min (commitment r) 1)) (filter sdo_eligible df)"
  by (simp add: vendor_with_sdo_def eligible_rows cap_def)

lemma filter_category_rows:
  "filter (\<lambda>row. Category (fst row) \<in> set cats) (map (\<lambda>r. (r, f r)) rows)
     = map (\<lambda>r. (r, f r)) (filter (\<lambda>r. Category r \<in> set cats) rows)"
  by (induction rows) auto

lemma set_dropna: "set (dropna xs) = {x. Some x \<in> set xs}"
  by (induction xs) (auto simp: dropna_def split: option.splits)

lemma fst_keyed: "map fst (keyed key (map (\<lambda>r. (r, f r)) rows)) = dropna (map key rows)"
  by (induction rows) (auto simp: keyed_def dropna_def split: option.splits)

lemma group_rows_keyed:
  "group_rows fst (keyed key (map (\<lambda>r. (r, f r)) rows)) k
     = map (\<lambda>r. (k, r, f r)) (filter (\<lambda>r. key r = Some k) rows)"
  by (induction rows) (auto simp: keyed_def group_rows_def split: option.splits)

lemma group_keys_keyed:
  "group_keys fst (keyed key (map (\<lambda>r. (r, f r)) rows)) = sort (remdups (dropna (map key rows)))"
  by (simp add: group_keys_def fst_keyed)

lemma members_filter:
  "filter (\<lambda>r. key r = Some k) (filter (\<lambda>r. Category r \<in> set cats) (filter sdo_eligible df))
     = group_members key df cats k"
  by (induction df) (auto simp: group_members_def)

lemma members_filter':
  "filter (\<lambda>r. key r = Some k) (filter sdo_eligible (filter (\<lambda>r. Category r \<in> set cats) df))
     = group_members key df cats k"
  by (induction df) (auto simp: group_members_def)

lemma keys_filter:
  "set (dropna (map key (filter (\<lambda>r. Category r \<in> set cats) (filter sdo_eligible df))))
     = group_keys_of key df cats"
proof -
  have "filter (\<lambda>r. Category r \<in> set cats) (filter sdo_eligible df)
          = filter (\<lambda>r. sdo_eligible r \<and> Category r \<in> set cats) df"
    by (induction df) auto
  then show ?thesis by (simp add: group_keys_of_def)
qed

lemma keys_filter':
  "set (dropna (map key (filter sdo_eligible (filter (\<lambda>r. Category r \<in> set cats) df))))
     = group_keys_of key df cats"
proof -
  have "filter sdo_eligible (filter (\<lambda>r. Category r \<in> set cats) df)
          = filter (\<lambda>r. sdo_eligible r \<and> Category r \<in> set cats) df"
    by (induction df) auto
  then show ?thesis by (simp add: group_keys_of_def)
qed

lemma members_nonempty:
  "k \<in> group_keys_of key df cats \<Longrightarrow> group_members key df cats k \<noteq> []"
  by (auto simp: group_keys_of_def group_members_def set_dropna filter_empty_conv)

lemma values_of_group: "map (\<lambda>row. snd (snd row)) (map (\<lambda>r. (k, r, f r)) rows) = map f rows"
  by (induction rows) auto

lemma codes_of_rows:
  "map (\<lambda>row. Contract_Code (fst (snd row))) (map (\<lambda>r. (k, r, f r)) rows) = map Contract_Code rows"
  by (induction rows) auto

lemma bq1_company_sdo_closed:
  "bq1_company_sdo srt df =
     srt (map (\<lambda>k. (k, Max (set (map commitment (group_members company_category df [''ITE'', ''ITS'', ''ITT''] k))),
                    card (set (dropna (codes_of_group company_category df [''ITE'', ''ITS'', ''ITT''] k)))))
              (sort (remdups (dropna (map company_category
                 (filter sdo_eligible (filter (\<lambda>r. Category r \<in> set [''ITE'', ''ITS'', ''ITT'']) df)))))))"
  unfolding bq1_company_sdo_def Let_def eligible_rows group_keys_keyed group_rows_keyed
    values_of_group codes_of_rows members_filter' nunique_def codes_of_group_def
    length_remdups_card_conv
  by (rule refl)

lemma make_bq1_groups_closed:
  "make_bq1_groups srt flt (vendor_with_sdo df) =
     srt (map (\<lambda>k. (k, Max (set (capped_of_group company_label df (it_cats flt) k))))
              (sort (remdups (dropna (map company_label
                 (filter (\<lambda>r. Category r \<in> set (it_cats flt)) (filter sdo_eligible df)))))))"
  unfolding make_bq1_groups_def Let_def vendor_with_sdo_rows filter_category_rows
    group_keys_keyed group_rows_keyed values_of_group members_filter capped_of_group_def
  by (rule refl)

lemma table_set:
  assumes "sorts_by ord srt"
  shows "set (srt (map (\<lambda>k. (k, agg k)) (sort (remdups ks)))) = (\<lambda>k. (k, agg k)) ` set ks"
  unfolding sorts_by_set [OF assms] by simp

lemma table_distinct:
  assumes "sorts_by ord srt"
  shows "distinct (map fst (srt (map (\<lambda>k. (k, agg k)) (sort (remdups ks)))))"
  by (rule sorts_by_distinct_map [OF assms]) (simp add: comp_def)

lemma table_length:
  assumes "sorts_by ord srt"
  shows "length (srt (map (\<lambda>k. (k, agg k)) (sort (remdups ks)))) = card (set ks)"
  unfolding sorts_by_length [OF assms] by (simp add: length_remdups_card_conv)

lemma table_member:
  assumes "sorts_by ord srt" and "g \<in> set (srt (map (\<lambda>k. (k, agg k)) (sort (remdups ks))))"
  shows "fst g \<in> set ks \<and> snd g = agg (fst g)"
  using assms(2) unfolding table_set [OF assms(1)] by auto

lemma capped_le_one: "c \<in> set (capped_of_group key df cats k) \<Longrightarrow> c \<le> 1"
  by (auto simp: capped_of_group_def)

lemma capped_nonempty:
  "k \<in> group_keys_of key df cats \<Longrightarrow> capped_of_group key df cats k \<noteq> []"
  using members_nonempty [of k key df cats] by (simp add: capped_of_group_def)

lemma bq1_company_sdo_sorted:
  assumes "sorts_by ord srt"
  shows "sorted_wrt ord (bq1_company_sdo srt df)"
  unfolding bq1_company_sdo_def Let_def by (rule sorts_by_sorted [OF assms])

lemma make_bq1_groups_sorted:
  assumes "sorts_by ord srt"
  shows "sorted_wrt ord (make_bq1_groups srt flt vws)"
  unfolding make_bq1_groups_def Let_def by (rule sorts_by_sorted [OF assms])

lemma bq1_company_sdo_length:
  assumes "sorts_by ord srt"
  shows "length (bq1_company_sdo srt df) = card (group_keys_of company_category df [''ITE'', ''ITS'', ''ITT''])"
  unfolding bq1_company_sdo_closed table_length [OF assms] keys_filter' by (rule refl)

lemma bq1_company_sdo_distinct:
  assumes "sorts_by ord srt"
  shows "distinct (map fst (bq1_company_sdo srt df))"
  unfolding bq1_company_sdo_closed by (rule table_distinct [OF assms])

lemma bq1_company_sdo_member:
  assumes "sorts_by ord srt" and "g \<in> set (bq1_company_sdo srt df)"
  shows "fst g \<in> group_keys_of company_category df [''ITE'', ''ITS'', ''ITT'']
       \<and> SDO_Max g = Max (set (map commitment (group_members company_category df [''ITE'', ''ITS'', ''ITT''] (fst g))))
       \<and> Contract_Count g = card (set (dropna (codes_of_group company_category df [''ITE'', ''ITS'', ''ITT''] (fst g))))"
  using table_member [OF assms(1) assms(2) [unfolded bq1_company_sdo_closed]]
  unfolding keys_filter' SDO_Max_def Contract_Count_def by simp

lemma make_bq1_groups_length:
  assumes "sorts_by ord srt"
  shows "length (make_bq1_groups srt flt (vendor_with_sdo df)) = card (group_keys_of company_label df (it_cats flt))"
  unfolding make_bq1_groups_closed table_length [OF assms] keys_filter by (rule refl)

lemma make_bq1_groups_distinct:
  assumes "sorts_by ord srt"
  shows "distinct (map fst (make_bq1_groups srt flt (vendor_with_sdo df)))"
  unfolding make_bq1_groups_closed by (rule table_distinct [OF assms])

lemma make_bq1_groups_member:
  assumes "sorts_by ord srt" and "g \<in> set (make_bq1_groups srt flt (vendor_with_sdo df))"
  shows "fst g \<in> group_keys_of company_label df (it_cats flt)
       \<and> snd g = Max (set (capped_of_group company_label df (it_cats flt) (fst g)))
       \<and> snd g \<le> 1"
proof -
  from table_member [OF assms(1) assms(2) [unfolded make_bq1_groups_closed]]
  have k: "fst g \<in> group_keys_of company_label df (it_cats flt)"
    and v: "snd g = Max (set (capped_of_group company_label df (it_cats flt) (fst g)))"
    unfolding keys_filter by blast+
  from capped_nonempty [OF k]
  have "Max (set (capped_of_group company_label df (it_cats flt) (fst g)))
          \<in> set (capped_of_group company_label df (it_cats flt) (fst g))"
    by (intro Max_in) simp_all
  then have "Max (set (capped_of_group company_label df (it_cats flt) (fst g))) \<le> 1"
    by (rule capped_le_one)
  with k v show ?thesis by simp
qed

lemma capped_within_one:
  assumes "list_all within_one df"
  shows "capped_of_group key df cats k = map commitment (group_members key df cats k)"
proof -
  have "min (commitment r) 1 = commitment r" if "r \<in> set df" for r
    using assms that by (auto simp: list_all_iff within_one_def commitment_def split: option.splits)
  then show ?thesis
    by (simp add: capped_of_group_def group_members_def)
qed

lemma bq1_company_sdo_keys:
  assumes "sorts_by ord srt"
  shows "fst ` set (bq1_company_sdo srt df) = group_keys_of company_category df [''ITE'', ''ITS'', ''ITT'']"
  unfolding bq1_company_sdo_closed table_set [OF assms] keys_filter' [symmetric]
  by (simp add: image_image)

lemma make_bq1_groups_keys:
  assumes "sorts_by ord srt"
  shows "fst ` set (make_bq1_groups srt flt (vendor_with_sdo df)) = group_keys_of company_label df (it_cats flt)"
  unfolding make_bq1_groups_closed table_set [OF assms] keys_filter [symmetric]
  by (simp add: image_image)

lemma left_out_of_take:
  assumes "k \<in> fst ` set xs - fst ` set (take n xs)"
  obtains h where "h \<in> set (drop n xs)" and "fst h = k"
proof -
  from assms obtain h where h: "h \<in> set xs" and k: "fst h = k"
    by auto
  from assms k have "h \<notin> set (take n xs)"
    by auto
  with h set_minus_take [of xs n] have "h \<in> set (drop n xs)"
    by blast
  with k that show thesis by blast
qed

lemma left_out_of_drop:
  assumes "k \<in> fst ` set xs - fst ` set (drop n xs)"
  obtains h where "h \<in> set (take n xs)" and "fst h = k"
proof -
  from assms obtain h where h: "h \<in> set xs" and k: "fst h = k"
    by auto
  from assms k have "h \<notin> set (drop n xs)"
    by auto
  with h set_minus_drop [of xs n] have "h \<in> set (take n xs)"
    by blast
  with k that show thesis by blast
qed

text \<open>The views evaluated on the table of sixteen companies.\<close>

lemma sixteen_top_member: "((''Vendor B'', ''ITE''), 1/10, 1) \<in> set (bq1_it_sector_top_sdo (stable_descending SDO_Max) vendors_sixteen)"
  by code_simp

lemma sixteen_left_out: "(''Vendor A'', ''ITE'') \<in> group_keys_of company_category vendors_sixteen [''ITE'', ''ITS'', ''ITT'']
                - fst ` set (bq1_it_sector_top_sdo (stable_descending SDO_Max) vendors_sixteen)"
  by code_simp

lemma sixteen_count: "min 15 (card (group_keys_of company_category vendors_sixteen [''ITE'', ''ITS'', ''ITT''])) = 15"
  by code_simp

lemma sixteen_within_one: "list_all within_one vendors_sixteen"
  by code_simp

lemma sixteen_chart_member: "((''Vendor B'', ''IT Equipment & Services''), 1/10)
     \<in> set (make_bq1_chart (stable_ascending snd) ''All'' (vendor_with_sdo (map with_label vendors_sixteen)))"
  by code_simp

lemma sixteen_chart_left_out: "(''Vendor A'', ''IT Equipment & Services'')
    \<in> group_keys_of company_label (map with_label vendors_sixteen) (it_cats ''All'')
                - fst ` set (make_bq1_chart (stable_ascending snd) ''All'' (vendor_with_sdo (map with_label vendors_sixteen)))"
  by code_simp

lemma sixteen_chart_count: "min 15 (card (group_keys_of company_label (map with_label vendors_sixteen) (it_cats ''All''))) = 15"
  by code_simp

section \<open>Properties\<close>

text \<open>
  Claim C7.  Capping a commitment at 1.0 is idempotent, leaves every value that is at
  most 1.0 unchanged, and sends every value above 1.0 to 1.0.
\<close>

theorem cap_idempotent_and_bounds:
  "cap (cap x) = cap x \<and> (x \<le> 1 \<longrightarrow> cap x = x) \<and> (1 < x \<longrightarrow> cap x = 1)"
  by (simp add: cap_def min_def)

theorem cap_idempotent_and_bounds_witness:
  "cap (cap (3/2)) = cap (3/2) \<and> ((1/4::real) \<le> 1 \<and> cap (1/4) = 1/4)
     \<and> ((1::real) < 3/2 \<and> cap (3/2) = 1)"
proof -
  have small: "(1/4::real) \<le> 1" and big: "(1::real) < 3/2"
    by simp_all
  from cap_idempotent_and_bounds [of "3/2"] big
  have idem: "cap (cap (3/2)) = cap (3/2)" and above: "cap (3/2) = 1"
    by blast+
  from cap_idempotent_and_bounds [of "1/4"] small
  have below: "cap (1/4) = 1/4"
    by blast
  from small big idem above below show ?thesis
    by blast
qed




text \<open>
  Claim C3, as amended.  The boilerplate filter of the vendor loaders (EDA script and
  dashboard) looks at the company cell as read from the sheet, before the newline collapse
  and the trimming: every record of the loaded table comes from a row of a retained sheet
  whose stringified company cell contains none of the phrases (case-insensitively, as a
  substring), the row being dropped entirely otherwise; and the company field of the
  record itself contains none of the phrases whenever that cell held no line feed.
\<close>

theorem loaded_company_unmasked_at_source:
  "(load_vendor_data P fmt tn (Some shs) = Inr rows \<and> r \<in> set rows \<longrightarrow>
      (\<exists>sh\<in>set (retained shs). \<exists>row\<in>set (body sh).
          Company r = clean P fmt (cell_at row 2)
          \<and> Company r = Some (strip (replace_newline (py_str fmt (cell_at row 2))))
          \<and> mask (py_str fmt (cell_at row 2))
          \<and> (newline \<notin> set (py_str fmt (cell_at row 2)) \<longrightarrow> (\<forall>s. Company r = Some s \<longrightarrow> mask s))))
   \<and> (load_vendor_data_dashboard P fmt tn (Some shs) = Inr drows \<and> d \<in> set drows \<longrightarrow>
      (\<exists>sh\<in>set (retained shs). \<exists>row\<in>set (body sh).
          Company d = clean P fmt (cell_at row 2)
          \<and> mask (py_str fmt (cell_at row 2))
          \<and> (newline \<notin> set (py_str fmt (cell_at row 2)) \<longrightarrow> (\<forall>s. Company d = Some s \<longrightarrow> mask s))))"
proof (intro conjI impI)
  assume a: "load_vendor_data P fmt tn (Some shs) = Inr rows \<and> r \<in> set rows"
  then have "load_with (frame_eda P fmt tn) (Some shs) = Inr rows" and "r \<in> set rows"
    by (simp_all add: load_vendor_data_def)
  from load_with_row_origin [OF this] obtain sh df
    where sh: "sh \<in> set (retained shs)" and df: "frame_eda P fmt tn sh = Inr df" "r \<in> set df"
    by blast
  from frame_eda_row_origin [OF df] obtain row
    where row: "row \<in> set (body sh)" "mask (py_str fmt (cell_at row 2))"
      "Company r = clean P fmt (cell_at row 2)"
      "Company r = Some (strip (replace_newline (py_str fmt (cell_at row 2))))"
    by blast
  have "newline \<notin> set (py_str fmt (cell_at row 2)) \<longrightarrow> (\<forall>s. Company r = Some s \<longrightarrow> mask s)"
    using row(2,3) mask_cleaned by metis
  with sh row show "\<exists>sh\<in>set (retained shs). \<exists>row\<in>set (body sh).
          Company r = clean P fmt (cell_at row 2)
          \<and> Company r = Some (strip (replace_newline (py_str fmt (cell_at row 2))))
          \<and> mask (py_str fmt (cell_at row 2))
          \<and> (newline \<notin> set (py_str fmt (cell_at row 2)) \<longrightarrow> (\<forall>s. Company r = Some s \<longrightarrow> mask s))"
    by blast
next
  assume a: "load_vendor_data_dashboard P fmt tn (Some shs) = Inr drows \<and> d \<in> set drows"
  then have "load_with (frame_dashboard P fmt tn) (Some shs) = Inr drows" and "d \<in> set drows"
    by (simp_all add: load_vendor_data_dashboard_def)
  from load_with_row_origin [OF this] obtain sh df
    where sh: "sh \<in> set (retained shs)" and df: "frame_dashboard P fmt tn sh = Inr df" "d \<in> set df"
    by blast
  from frame_dashboard_row_origin [OF df] obtain row
    where row: "row \<in> set (body sh)" "mask (py_str fmt (cell_at row 2))"
      "Company d = clean P fmt (cell_at row 2)"
    by blast
  have "newline \<notin> set (py_str fmt (cell_at row 2)) \<longrightarrow> (\<forall>s. Company d = Some s \<longrightarrow> mask s)"
    using row(2,3) mask_cleaned by metis
  with sh row show "\<exists>sh\<in>set (retained shs). \<exists>row\<in>set (body sh).
          Company d = clean P fmt (cell_at row 2)
          \<and> mask (py_str fmt (cell_at row 2))
          \<and> (newline \<notin> set (py_str fmt (cell_at row 2)) \<longrightarrow> (\<forall>s. Company d = Some s \<longrightarrow> mask s))"
    by blast
qed

theorem loaded_company_unmasked_at_source_witness:
  "load_vendor_data Before3 fmt_blank numeric_only workbook_sample = Inr [vendor_Acme, vendor_Bolt]
   \<and> vendor_Acme \<in> set [vendor_Acme, vendor_Bolt]
   \<and> (\<exists>sh\<in>set (retained [sheet_Abbreviations, sheet_ITE]). \<exists>row\<in>set (body sh).
          Company vendor_Acme = clean Before3 fmt_blank (cell_at row 2)
          \<and> Company vendor_Acme = Some (strip (replace_newline (py_str fmt_blank (cell_at row 2))))
          \<and> mask (py_str fmt_blank (cell_at row 2))
          \<and> (newline \<notin> set (py_str fmt_blank (cell_at row 2))
                \<longrightarrow> (\<forall>s. Company vendor_Acme = Some s \<longrightarrow> mask s)))"
proof -
  have ld: "load_vendor_data Before3 fmt_blank numeric_only (Some [sheet_Abbreviations, sheet_ITE])
              = Inr [vendor_Acme, vendor_Bolt]"
    using load_sample by (simp add: workbook_sample_def)
  have mem: "vendor_Acme \<in> set [vendor_Acme, vendor_Bolt]" by simp
  from loaded_company_unmasked_at_source
    [of Before3 fmt_blank numeric_only "[sheet_Abbreviations, sheet_ITE]" "[vendor_Acme, vendor_Bolt]" vendor_Acme]
    ld mem load_sample
  show ?thesis by blast
qed

text \<open>
  The claim as stated, for the final table, fails: a company cell holding
  \<^verbatim>\<open>Master\<close> and \<^verbatim>\<open>Contract\<close> on two lines passes the filter and becomes the
  company \<^verbatim>\<open>Master Contract\<close> of a loaded record.
\<close>

theorem masked_company_survives_counterexample:
  "load_vendor_data Before3 fmt_blank numeric_only (Some [sheet_two_lines]) =
     Inr [\<lparr>Contract_Code = Some ''ITS07'', Name = Some ''Di Wu'', Company = Some ''Master Contract'',
            Role = NaN, Email = NaN, Phone = NaN,
            SDO_Commitment_Pct = Some (1/2), Category = ''ITS''\<rparr>]
   \<and> load_vendor_data From3 fmt_blank numeric_only (Some [sheet_two_lines]) =
     Inr [\<lparr>Contract_Code = Some ''ITS07'', Name = Some ''Di Wu'', Company = Some ''Master Contract'',
            Role = NaN, Email = NaN, Phone = NaN,
            SDO_Commitment_Pct = Some (1/2), Category = ''ITS''\<rparr>]
   \<and> mentions ''Master Contract'' ''Master Contract''
   \<and> ''Master Contract'' \<in> set metadata_keywords"
  by code_simp

text \<open>
  Claim C4, as amended.  \<^verbatim>\<open>load_vendor_data\<close> fails exactly when the workbook cannot
  be opened, or a retained sheet makes its pass fail, or no sheet is retained.  The pass
  over a retained sheet fails when the sheet has fewer than seven columns (ValueError from
  the column assignment), when it has no data row (KeyError from reading the commitment
  column), and, from pandas 3.0 on, when a company cell is empty (AttributeError from the
  mask); the error of the load is that of the first such sheet in workbook order.  Without
  a retained sheet \<^verbatim>\<open>pd.concat\<close> raises ValueError.  The code defines no error type of
  its own.  In every other case the load returns a table.
\<close>

theorem load_vendor_data_failure:
  "load_vendor_data P fmt tn None = Inl OpenError
   \<and> (case first_failure P (retained shs) of
         Some e \<Rightarrow> load_vendor_data P fmt tn (Some shs) = Inl e
       | None \<Rightarrow>
           if retained shs = [] then load_vendor_data P fmt tn (Some shs) = Inl ValueError
           else \<exists>rows. load_vendor_data P fmt tn (Some shs) = Inr rows)"
  by (simp add: load_vendor_data_def load_with_def read_sheets_eda pd_concat_def split: option.splits)

theorem load_vendor_data_failure_witness:
  "load_vendor_data Before3 fmt_blank numeric_only None = Inl OpenError
   \<and> first_failure Before3 (retained [sheet_Abbreviations, sheet_ITE]) = None
   \<and> retained [sheet_Abbreviations, sheet_ITE] \<noteq> []
   \<and> (\<exists>rows. load_vendor_data Before3 fmt_blank numeric_only (Some [sheet_Abbreviations, sheet_ITE]) = Inr rows)
   \<and> first_failure Before3 (retained [sheet_ITE, sheet_narrow]) = Some ValueError
   \<and> load_vendor_data Before3 fmt_blank numeric_only (Some [sheet_ITE, sheet_narrow]) = Inl ValueError
   \<and> first_failure Before3 (retained [sheet_header_only]) = Some KeyError
   \<and> load_vendor_data Before3 fmt_blank numeric_only (Some [sheet_header_only]) = Inl KeyError
   \<and> first_failure From3 (retained [sheet_blank_company]) = Some AttributeError
   \<and> load_vendor_data From3 fmt_blank numeric_only (Some [sheet_blank_company]) = Inl AttributeError"
proof -
  note ok = load_vendor_data_failure [of Before3 fmt_blank numeric_only "[sheet_Abbreviations, sheet_ITE]"]
  note narrow = load_vendor_data_failure [of Before3 fmt_blank numeric_only "[sheet_ITE, sheet_narrow]"]
  note header = load_vendor_data_failure [of Before3 fmt_blank numeric_only "[sheet_header_only]"]
  note blank = load_vendor_data_failure [of From3 fmt_blank numeric_only "[sheet_blank_company]"]
  from ok ff_sample have 1: "load_vendor_data Before3 fmt_blank numeric_only None = Inl OpenError"
    and 2: "\<exists>rows. load_vendor_data Before3 fmt_blank numeric_only (Some [sheet_Abbreviations, sheet_ITE]) = Inr rows"
    by simp_all
  from narrow ff_narrow
  have 3: "load_vendor_data Before3 fmt_blank numeric_only (Some [sheet_ITE, sheet_narrow]) = Inl ValueError"
    by simp
  from header ff_header
  have 4: "load_vendor_data Before3 fmt_blank numeric_only (Some [sheet_header_only]) = Inl KeyError"
    by simp
  from blank ff_blank
  have 5: "load_vendor_data From3 fmt_blank numeric_only (Some [sheet_blank_company]) = Inl AttributeError"
    by simp
  from 1 2 3 4 5 ff_sample ff_narrow ff_header ff_blank show ?thesis
    by blast
qed

text \<open>
  The claim as stated fails on a workbook whose only sheet is on the skip list, and on a
  workbook whose only sheet has the seven columns and no data row: both open, no retained
  sheet has too few columns, and the load still fails.
\<close>

theorem load_fails_without_retained_sheet_counterexample:
  "load_vendor_data Before3 fmt_blank numeric_only (Some [sheet_Abbreviations]) = Inl ValueError
   \<and> Some [sheet_Abbreviations] \<noteq> None
   \<and> \<not> list_ex too_few_columns (retained [sheet_Abbreviations])
   \<and> load_vendor_data Before3 fmt_blank numeric_only (Some [sheet_header_only]) = Inl KeyError
   \<and> \<not> list_ex too_few_columns (retained [sheet_header_only])"
  by code_simp

text \<open>
  Claim C5, as amended.  A categorized-company workbook that contains a sheet with fewer
  than four columns makes \<^verbatim>\<open>load_categorized_companies\<close> fail: the extraction of a
  column position that the sheet does not have raises IndexError, in the EDA script and
  in the dashboard alike, and no record is returned.  When every sheet has at least four
  columns the column extraction raises nothing.
\<close>

theorem narrow_sheet_fails_load:
  "(if \<exists>sh\<in>set shs. ncols sh < 4
    then load_categorized_companies fmt (Some shs) = Inl IndexError
         \<and> load_categorized_companies_dashboard fmt (Some shs) = Inl IndexError
    else \<exists>rows. load_categorized_companies_dashboard fmt (Some shs) = Inr rows)"
proof (cases "\<exists>sh\<in>set shs. ncols sh < 4")
  case True
  then have "\<exists>sh\<in>set shs. isl (sheet_companies_eda fmt sh)"
    by (auto simp: sheet_companies_eda_narrow)
  from all_sheets_error [of "sheet_companies_eda fmt" IndexError, OF sheet_companies_eda_error this]
  have e: "all_sheets (sheet_companies_eda fmt) shs = Inl IndexError" .
  have "sheet_companies_dashboard fmt = sheet_companies_eda fmt"
    by (rule ext) (rule sheet_companies_dashboard_eq)
  with e True show ?thesis
    by (simp add: load_categorized_companies_def load_categorized_companies_dashboard_def)
next
  case False
  then have "\<forall>sh\<in>set shs. \<not> isl (sheet_companies_dashboard fmt sh)"
    by (auto simp: sheet_companies_dashboard_eq sheet_companies_eda_narrow)
  from all_sheets_ok [OF this] False show ?thesis
    by (simp add: load_categorized_companies_dashboard_def)
qed

theorem narrow_sheet_fails_load_witness:
  "(\<exists>sh\<in>set [sheet_Finance, sheet_Retail2]. ncols sh < 4)
   \<and> load_categorized_companies fmt_blank (Some [sheet_Finance, sheet_Retail2]) = Inl IndexError
   \<and> load_categorized_companies_dashboard fmt_blank (Some [sheet_Finance, sheet_Retail2]) = Inl IndexError
   \<and> \<not> (\<exists>sh\<in>set [sheet_Finance]. ncols sh < 4)
   \<and> (\<exists>rows. load_categorized_companies_dashboard fmt_blank (Some [sheet_Finance]) = Inr rows)"
proof -
  have bad: "\<exists>sh\<in>set [sheet_Finance, sheet_Retail2]. ncols sh < 4"
    by (simp add: sheet_Retail2_def)
  have ok: "\<not> (\<exists>sh\<in>set [sheet_Finance]. ncols sh < 4)"
    by (simp add: sheet_Finance_def)
  from narrow_sheet_fails_load [of "[sheet_Finance, sheet_Retail2]" fmt_blank] bad
  have a: "load_categorized_companies fmt_blank (Some [sheet_Finance, sheet_Retail2]) = Inl IndexError
         \<and> load_categorized_companies_dashboard fmt_blank (Some [sheet_Finance, sheet_Retail2]) = Inl IndexError"
    by (simp only: if_True)
  from narrow_sheet_fails_load [of "[sheet_Finance]" fmt_blank] ok
  have b: "\<exists>rows. load_categorized_companies_dashboard fmt_blank (Some [sheet_Finance]) = Inr rows"
    by (simp only: if_False)
  from bad ok a b show ?thesis by blast
qed

text \<open>
  The claim as stated fails on a workbook whose only sheet has three columns: the load
  does not return the records of the two buckets that exist, it raises IndexError.
\<close>

theorem three_column_sheet_counterexample:
  "ncols sheet_Finance3 < 4
   \<and> load_categorized_companies fmt_blank (Some [sheet_Finance3]) = Inl IndexError
   \<and> load_categorized_companies_dashboard fmt_blank (Some [sheet_Finance3]) = Inl IndexError"
  by code_simp

text \<open>
  Claim C6.  A category with fewer than 10 SDO-eligible rows never appears in the
  outlier/box-plot view (BQ6), neither among its categories nor among its rows, in the EDA
  script and in the dashboard; and the inclusion rule is monotonic in the threshold: for
  thresholds \<open>t1 \<le> t2\<close> the categories and rows included at \<open>t2\<close> are among those
  included at \<open>t1\<close>.
\<close>

theorem bq6_threshold:
  "(length (filter (\<lambda>r. Category r = c) (filter sdo_eligible df)) < 10 \<longrightarrow>
      c \<notin> set (fst (bq6_sdo_distribution_outliers df))
      \<and> (\<forall>row\<in>set (snd (bq6_sdo_distribution_outliers df)). Category (fst row) \<noteq> c))
   \<and> (length (filter (\<lambda>r. Category r = c) (filter sdo_eligible ddf)) < 10 \<longrightarrow>
      c \<notin> set (fst (make_bq6_chart (vendor_with_sdo ddf)))
      \<and> (\<forall>row\<in>set (snd (make_bq6_chart (vendor_with_sdo ddf))). Category (fst row) \<noteq> c))
   \<and> (t1 \<le> t2 \<longrightarrow>
      set (fst (bq6_at t2 df)) \<subseteq> set (fst (bq6_at t1 df))
      \<and> set (snd (bq6_at t2 df)) \<subseteq> set (snd (bq6_at t1 df))
      \<and> set (fst (make_bq6_chart_at t2 (vendor_with_sdo ddf)))
           \<subseteq> set (fst (make_bq6_chart_at t1 (vendor_with_sdo ddf)))
      \<and> set (snd (make_bq6_chart_at t2 (vendor_with_sdo ddf)))
           \<subseteq> set (snd (make_bq6_chart_at t1 (vendor_with_sdo ddf))))"
proof (intro conjI impI)
  assume few: "length (filter (\<lambda>r. Category r = c) (filter sdo_eligible df)) < 10"
  then show out: "c \<notin> set (fst (bq6_sdo_distribution_outliers df))"
    by (simp add: bq6_sdo_distribution_outliers_def bq6_at_cats)
  show "\<forall>row\<in>set (snd (bq6_sdo_distribution_outliers df)). Category (fst row) \<noteq> c"
  proof
    fix row assume "row \<in> set (snd (bq6_sdo_distribution_outliers df))"
    then have "Category (fst row) \<in> set (fst (bq6_sdo_distribution_outliers df))"
      by (simp add: bq6_sdo_distribution_outliers_def bq6_at_snd)
    with out show "Category (fst row) \<noteq> c" by blast
  qed
next
  assume few: "length (filter (\<lambda>r. Category r = c) (filter sdo_eligible ddf)) < 10"
  then show out: "c \<notin> set (fst (make_bq6_chart (vendor_with_sdo ddf)))"
    by (simp add: make_bq6_chart_def make_bq6_cats)
  show "\<forall>row\<in>set (snd (make_bq6_chart (vendor_with_sdo ddf))). Category (fst row) \<noteq> c"
  proof
    fix row assume "row \<in> set (snd (make_bq6_chart (vendor_with_sdo ddf)))"
    then have "Category (fst row) \<in> set (fst (make_bq6_chart (vendor_with_sdo ddf)))"
      by (simp add: make_bq6_chart_def make_bq6_snd)
    with out show "Category (fst row) \<noteq> c" by blast
  qed
next
  assume le: "t1 \<le> t2"
  show e: "set (fst (bq6_at t2 df)) \<subseteq> set (fst (bq6_at t1 df))"
  proof
    fix k assume "k \<in> set (fst (bq6_at t2 df))"
    with le show "k \<in> set (fst (bq6_at t1 df))"
      unfolding bq6_at_cats by simp
  qed
  show "set (snd (bq6_at t2 df)) \<subseteq> set (snd (bq6_at t1 df))"
  proof
    fix row assume "row \<in> set (snd (bq6_at t2 df))"
    then have "row \<in> set (map (\<lambda>(r, x). (r, x, cap x)) (positive (dropna_sdo df)))"
      and "Category (fst row) \<in> set (fst (bq6_at t2 df))"
      by (simp_all add: bq6_at_snd)
    with e show "row \<in> set (snd (bq6_at t1 df))"
      by (subst bq6_at_snd) auto
  qed
  show d: "set (fst (make_bq6_chart_at t2 (vendor_with_sdo ddf)))
           \<subseteq> set (fst (make_bq6_chart_at t1 (vendor_with_sdo ddf)))"
  proof
    fix k assume "k \<in> set (fst (make_bq6_chart_at t2 (vendor_with_sdo ddf)))"
    with le show "k \<in> set (fst (make_bq6_chart_at t1 (vendor_with_sdo ddf)))"
      unfolding make_bq6_cats by simp
  qed
  show "set (snd (make_bq6_chart_at t2 (vendor_with_sdo ddf)))
           \<subseteq> set (snd (make_bq6_chart_at t1 (vendor_with_sdo ddf)))"
  proof
    fix row assume "row \<in> set (snd (make_bq6_chart_at t2 (vendor_with_sdo ddf)))"
    then have "row \<in> set (vendor_with_sdo ddf)"
      and "Category (fst row) \<in> set (fst (make_bq6_chart_at t2 (vendor_with_sdo ddf)))"
      by (simp_all add: make_bq6_snd)
    with d show "row \<in> set (snd (make_bq6_chart_at t1 (vendor_with_sdo ddf)))"
      by (subst make_bq6_snd) auto
  qed
qed

theorem bq6_threshold_witness:
  "length (filter (\<lambda>r. Category r = ''FAC'') (filter sdo_eligible vendors_sample)) < 10
   \<and> ''FAC'' \<notin> set (fst (bq6_sdo_distribution_outliers vendors_sample))
   \<and> length (filter (\<lambda>r. Category r = ''FAC'') (filter sdo_eligible dvendors_sample)) < 10
   \<and> ''FAC'' \<notin> set (fst (make_bq6_chart (vendor_with_sdo dvendors_sample)))
   \<and> (1::nat) \<le> 10
   \<and> set (fst (bq6_at 10 vendors_sample)) \<subseteq> set (fst (bq6_at 1 vendors_sample))
   \<and> set (fst (make_bq6_chart_at 10 (vendor_with_sdo dvendors_sample)))
        \<subseteq> set (fst (make_bq6_chart_at 1 (vendor_with_sdo dvendors_sample)))"
  using bq6_threshold [of "''FAC''" vendors_sample dvendors_sample 1 10] few_FAC few_FAC_d
  by simp




text \<open>
  Claim C8 at a failing input.  A row with a commitment of 1.5 is left out of the
  per-category pairs of the EDA script, but the dashboard keeps it: its filter tests the
  capped commitment, which never exceeds 1.0, so the filter removes nothing and the row
  enters the mean with the value 1.0.
\<close>

theorem dashboard_bq8_keeps_rows_above_one:
  "filter (\<lambda>(r, capped). capped \<le> 1) (vendor_with_sdo df) = vendor_with_sdo df
   \<and> SDO_Commitment_Pct vendor_Cyan = Some (3/2)
   \<and> bq8_cat_stats [vendor_Cyan] = []
   \<and> make_bq8_stats (vendor_with_sdo [with_label vendor_Cyan]) = [(''FAC'', 1, 1)]"
proof -
  have "SDO_Commitment_Pct vendor_Cyan = Some (3/2)
   \<and> bq8_cat_stats [vendor_Cyan] = []
   \<and> make_bq8_stats (vendor_with_sdo [with_label vendor_Cyan]) = [(''FAC'', 1, 1)]"
    by code_simp
  with dashboard_filter_vacuous [of df] show ?thesis
    by blast
qed

text \<open>
  Claim C2, as amended.  The top-15 view (BQ1) takes the SDO-eligible rows of the IT
  categories, groups them by company and category (the dashboard: by company and category
  label, within the chosen categories), and has one row for each group with the maximum
  of the group: in \<^verbatim>\<open>eda_analysis.py\<close> the maximum of the commitments as loaded, together
  with the number of distinct contract codes, in \<^verbatim>\<open>dashboard.py\<close> the maximum of the
  commitments capped at 1.0.  The two maxima agree on a table without a commitment above
  1.0.  The view returns fifteen rows, or as many as there are groups if these are fewer;
  no group left out has a greater maximum than a group returned.  The EDA script orders
  the rows by descending maximum, the dashboard by ascending maximum.  The order among
  groups of equal maximum is that of \<^verbatim>\<open>sort_values\<close>, of which only the ordering by
  the column is assumed.
\<close>

theorem bq1_top15:
  assumes desc: "sorts_by (\<lambda>a b. SDO_Max b \<le> SDO_Max a) sort_desc"
    and asc: "sorts_by (\<lambda>a b. snd a \<le> snd b) sort_asc"
  shows "length (bq1_it_sector_top_sdo sort_desc df)
           = min 15 (card (group_keys_of company_category df [''ITE'', ''ITS'', ''ITT'']))
     \<and> sorted_wrt (\<lambda>a b. SDO_Max b \<le> SDO_Max a) (bq1_it_sector_top_sdo sort_desc df)
     \<and> distinct (map fst (bq1_it_sector_top_sdo sort_desc df))
     \<and> (\<forall>g\<in>set (bq1_it_sector_top_sdo sort_desc df).
          fst g \<in> group_keys_of company_category df [''ITE'', ''ITS'', ''ITT'']
          \<and> SDO_Max g = Max (set (map commitment
                (group_members company_category df [''ITE'', ''ITS'', ''ITT''] (fst g))))
          \<and> Contract_Count g = card (set (dropna
                (codes_of_group company_category df [''ITE'', ''ITS'', ''ITT''] (fst g)))))
     \<and> (\<forall>g\<in>set (bq1_it_sector_top_sdo sort_desc df).
          \<forall>k\<in>group_keys_of company_category df [''ITE'', ''ITS'', ''ITT'']
                - fst ` set (bq1_it_sector_top_sdo sort_desc df).
            Max (set (map commitment (group_members company_category df [''ITE'', ''ITS'', ''ITT''] k)))
              \<le> SDO_Max g)
     \<and> (list_all within_one df \<longrightarrow>
          (\<forall>g\<in>set (bq1_it_sector_top_sdo sort_desc df).
             SDO_Max g = Max (set (capped_of_group company_category df [''ITE'', ''ITS'', ''ITT''] (fst g)))))
     \<and> length (make_bq1_chart sort_asc flt (vendor_with_sdo ddf))
           = min 15 (card (group_keys_of company_label ddf (it_cats flt)))
     \<and> sorted_wrt (\<lambda>a b. snd a \<le> snd b) (make_bq1_chart sort_asc flt (vendor_with_sdo ddf))
     \<and> distinct (map fst (make_bq1_chart sort_asc flt (vendor_with_sdo ddf)))
     \<and> (\<forall>g\<in>set (make_bq1_chart sort_asc flt (vendor_with_sdo ddf)).
          fst g \<in> group_keys_of company_label ddf (it_cats flt)
          \<and> snd g = Max (set (capped_of_group company_label ddf (it_cats flt) (fst g)))
          \<and> snd g \<le> 1)
     \<and> (\<forall>g\<in>set (make_bq1_chart sort_asc flt (vendor_with_sdo ddf)).
          \<forall>k\<in>group_keys_of company_label ddf (it_cats flt)
                - fst ` set (make_bq1_chart sort_asc flt (vendor_with_sdo ddf)).
            Max (set (capped_of_group company_label ddf (it_cats flt) k)) \<le> snd g)"
proof (intro conjI impI)
  let ?all = "bq1_company_sdo sort_desc df"
  let ?top = "bq1_it_sector_top_sdo sort_desc df"
  let ?IT = "[''ITE'', ''ITS'', ''ITT'']"
  have top: "?top = take 15 ?all"
    by (simp add: bq1_it_sector_top_sdo_def)
  have sorted_all: "sorted_wrt (\<lambda>a b. SDO_Max b \<le> SDO_Max a) ?all"
    by (rule bq1_company_sdo_sorted [OF desc])
  have sub: "set ?top \<subseteq> set ?all"
    unfolding top by (rule set_take_subset)
  show "length ?top = min 15 (card (group_keys_of company_category df ?IT))"
    unfolding top length_take bq1_company_sdo_length [OF desc] by (simp add: min.commute)
  show "sorted_wrt (\<lambda>a b. SDO_Max b \<le> SDO_Max a) ?top"
    unfolding top by (rule sorted_wrt_take [OF sorted_all])
  show "distinct (map fst ?top)"
    unfolding top take_map [symmetric] by (rule distinct_take [OF bq1_company_sdo_distinct [OF desc]])
  show members: "\<forall>g\<in>set ?top.
          fst g \<in> group_keys_of company_category df ?IT
          \<and> SDO_Max g = Max (set (map commitment (group_members company_category df ?IT (fst g))))
          \<and> Contract_Count g = card (set (dropna (codes_of_group company_category df ?IT (fst g))))"
  proof
    fix g assume "g \<in> set ?top"
    with sub have "g \<in> set ?all" by blast
    then show "fst g \<in> group_keys_of company_category df ?IT
          \<and> SDO_Max g = Max (set (map commitment (group_members company_category df ?IT (fst g))))
          \<and> Contract_Count g = card (set (dropna (codes_of_group company_category df ?IT (fst g))))"
      by (rule bq1_company_sdo_member [OF desc])
  qed
  show "\<forall>g\<in>set ?top. \<forall>k\<in>group_keys_of company_category df ?IT - fst ` set ?top.
            Max (set (map commitment (group_members company_category df ?IT k))) \<le> SDO_Max g"
  proof (intro ballI)
    fix g k assume g: "g \<in> set ?top" and k: "k \<in> group_keys_of company_category df ?IT - fst ` set ?top"
    from g have g': "g \<in> set (take 15 ?all)"
      unfolding top .
    from k have "k \<in> fst ` set ?all - fst ` set (take 15 ?all)"
      unfolding top bq1_company_sdo_keys [OF desc] .
    then obtain h where h: "h \<in> set (drop 15 ?all)" and hk: "fst h = k"
      by (rule left_out_of_take)
    from h have "h \<in> set ?all"
      by (rule in_set_dropD)
    from bq1_company_sdo_member [OF desc this] hk
    have v: "SDO_Max h = Max (set (map commitment (group_members company_category df ?IT k)))"
      by simp
    from sorted_wrt_take_drop [of "\<lambda>a b. SDO_Max b \<le> SDO_Max a" ?all g 15 h, OF sorted_all g' h]
    show "Max (set (map commitment (group_members company_category df ?IT k))) \<le> SDO_Max g"
      unfolding v .
  qed
  assume "list_all within_one df"
  then have c: "capped_of_group company_category df ?IT k
                  = map commitment (group_members company_category df ?IT k)" for k
    by (rule capped_within_one)
  from members show "\<forall>g\<in>set ?top. SDO_Max g = Max (set (capped_of_group company_category df ?IT (fst g)))"
    unfolding c by blast
next
  let ?all = "make_bq1_groups sort_asc flt (vendor_with_sdo ddf)"
  let ?top = "make_bq1_chart sort_asc flt (vendor_with_sdo ddf)"
  let ?n = "length ?all - 15"
  have top: "?top = drop ?n ?all"
    by (simp add: make_bq1_chart_def Let_def)
  have sorted_all: "sorted_wrt (\<lambda>a b. snd a \<le> snd b) ?all"
    by (rule make_bq1_groups_sorted [OF asc])
  have sub: "set ?top \<subseteq> set ?all"
    unfolding top by (rule set_drop_subset)
  have "length ?top = min 15 (length ?all)"
    unfolding top by simp
  then show "length ?top = min 15 (card (group_keys_of company_label ddf (it_cats flt)))"
    unfolding make_bq1_groups_length [OF asc] .
  show "sorted_wrt (\<lambda>a b. snd a \<le> snd b) ?top"
    unfolding top by (rule sorted_wrt_drop [OF sorted_all])
  show "distinct (map fst ?top)"
    unfolding top drop_map [symmetric] by (rule distinct_drop [OF make_bq1_groups_distinct [OF asc]])
  show "\<forall>g\<in>set ?top. fst g \<in> group_keys_of company_label ddf (it_cats flt)
          \<and> snd g = Max (set (capped_of_group company_label ddf (it_cats flt) (fst g)))
          \<and> snd g \<le> 1"
  proof
    fix g assume "g \<in> set ?top"
    with sub have "g \<in> set ?all" by blast
    then show "fst g \<in> group_keys_of company_label ddf (it_cats flt)
          \<and> snd g = Max (set (capped_of_group company_label ddf (it_cats flt) (fst g)))
          \<and> snd g \<le> 1"
      by (rule make_bq1_groups_member [OF asc])
  qed
  show "\<forall>g\<in>set ?top. \<forall>k\<in>group_keys_of company_label ddf (it_cats flt) - fst ` set ?top.
            Max (set (capped_of_group company_label ddf (it_cats flt) k)) \<le> snd g"
  proof (intro ballI)
    fix g k assume g: "g \<in> set ?top" and k: "k \<in> group_keys_of company_label ddf (it_cats flt) - fst ` set ?top"
    from g have g': "g \<in> set (drop ?n ?all)"
      unfolding top .
    from k have "k \<in> fst ` set ?all - fst ` set (drop ?n ?all)"
      unfolding top make_bq1_groups_keys [OF asc] .
    then obtain h where h: "h \<in> set (take ?n ?all)" and hk: "fst h = k"
      by (rule left_out_of_drop)
    from h have "h \<in> set ?all"
      by (rule in_set_takeD)
    from make_bq1_groups_member [OF asc this] hk
    have v: "snd h = Max (set (capped_of_group company_label ddf (it_cats flt) k))"
      by simp
    from sorted_wrt_take_drop [of "\<lambda>a b. snd a \<le> snd b" ?all h ?n g, OF sorted_all h g']
    show "Max (set (capped_of_group company_label ddf (it_cats flt) k)) \<le> snd g"
      unfolding v .
  qed
qed

theorem bq1_top15_witness:
  "sorts_by (\<lambda>a b. SDO_Max b \<le> SDO_Max a) (stable_descending SDO_Max)
   \<and> sorts_by (\<lambda>a b. snd a \<le> snd b) (stable_ascending snd)
   \<and> length (bq1_it_sector_top_sdo (stable_descending SDO_Max) vendors_sixteen) = 15
   \<and> ((''Vendor B'', ''ITE''), 1/10, 1)
        \<in> set (bq1_it_sector_top_sdo (stable_descending SDO_Max) vendors_sixteen)
   \<and> (''Vendor A'', ''ITE'')
        \<in> group_keys_of company_category vendors_sixteen [''ITE'', ''ITS'', ''ITT'']
            - fst ` set (bq1_it_sector_top_sdo (stable_descending SDO_Max) vendors_sixteen)
   \<and> Max (set (map commitment
        (group_members company_category vendors_sixteen [''ITE'', ''ITS'', ''ITT''] (''Vendor A'', ''ITE''))))
        \<le> 1/10
   \<and> list_all within_one vendors_sixteen
   \<and> Max (set (capped_of_group company_category vendors_sixteen [''ITE'', ''ITS'', ''ITT'']
                 (''Vendor B'', ''ITE''))) = 1/10
   \<and> card (set (dropna (codes_of_group company_category vendors_sixteen [''ITE'', ''ITS'', ''ITT'']
                 (''Vendor B'', ''ITE'')))) = 1
   \<and> length (make_bq1_chart (stable_ascending snd) ''All'' (vendor_with_sdo (map with_label vendors_sixteen))) = 15
   \<and> ((''Vendor B'', ''IT Equipment & Services''), 1/10)
        \<in> set (make_bq1_chart (stable_ascending snd) ''All'' (vendor_with_sdo (map with_label vendors_sixteen)))
   \<and> (''Vendor A'', ''IT Equipment & Services'')
        \<in> group_keys_of company_label (map with_label vendors_sixteen) (it_cats ''All'')
            - fst ` set (make_bq1_chart (stable_ascending snd) ''All''
                           (vendor_with_sdo (map with_label vendors_sixteen)))
   \<and> Max (set (capped_of_group company_label (map with_label vendors_sixteen) (it_cats ''All'')
                 (''Vendor B'', ''IT Equipment & Services''))) = 1/10
   \<and> Max (set (capped_of_group company_label (map with_label vendors_sixteen) (it_cats ''All'')
                 (''Vendor A'', ''IT Equipment & Services''))) \<le> 1/10"
proof -
  let ?IT = "[''ITE'', ''ITS'', ''ITT'']"
  let ?top = "bq1_it_sector_top_sdo (stable_descending SDO_Max) vendors_sixteen"
  let ?d = "map with_label vendors_sixteen"
  let ?chart = "make_bq1_chart (stable_ascending snd) ''All'' (vendor_with_sdo ?d)"
  have desc: "sorts_by (\<lambda>a b. SDO_Max b \<le> SDO_Max a) (stable_descending SDO_Max)"
    by (rule stable_descending_sorts)
  have asc: "sorts_by (\<lambda>a b. snd a \<le> snd b) (stable_ascending snd)"
    by (rule stable_ascending_sorts)
  note t = bq1_top15 [OF desc asc, of vendors_sixteen "''All''" ?d]
  note t1 = t [THEN conjunct1]
  note t4 = t [THEN conjunct2, THEN conjunct2, THEN conjunct2, THEN conjunct1]
  note t5 = t [THEN conjunct2, THEN conjunct2, THEN conjunct2, THEN conjunct2, THEN conjunct1]
  note t6 = t [THEN conjunct2, THEN conjunct2, THEN conjunct2, THEN conjunct2, THEN conjunct2,
               THEN conjunct1]
  note t7 = t [THEN conjunct2, THEN conjunct2, THEN conjunct2, THEN conjunct2, THEN conjunct2,
               THEN conjunct2, THEN conjunct1]
  note t10 = t [THEN conjunct2, THEN conjunct2, THEN conjunct2, THEN conjunct2, THEN conjunct2,
               THEN conjunct2, THEN conjunct2, THEN conjunct2, THEN conjunct2, THEN conjunct1]
  note t11 = t [THEN conjunct2, THEN conjunct2, THEN conjunct2, THEN conjunct2, THEN conjunct2,
               THEN conjunct2, THEN conjunct2, THEN conjunct2, THEN conjunct2, THEN conjunct2]
  have 1: "length ?top = 15"
    using t1 unfolding sixteen_count .
  have 2: "Max (set (map commitment (group_members company_category vendors_sixteen ?IT (''Vendor A'', ''ITE''))))
             \<le> 1/10"
    using t5 [rule_format, OF sixteen_top_member sixteen_left_out] by (simp add: SDO_Max_def)
  have 3: "Max (set (capped_of_group company_category vendors_sixteen ?IT (''Vendor B'', ''ITE''))) = 1/10"
    using t6 [rule_format, OF sixteen_within_one sixteen_top_member] by (simp add: SDO_Max_def)
  have 4: "card (set (dropna (codes_of_group company_category vendors_sixteen ?IT (''Vendor B'', ''ITE'')))) = 1"
    using t4 [rule_format, OF sixteen_top_member] by (simp add: Contract_Count_def)
  have 5: "length ?chart = 15"
    using t7 unfolding sixteen_chart_count .
  have 6: "Max (set (capped_of_group company_label ?d (it_cats ''All'')
                 (''Vendor B'', ''IT Equipment & Services''))) = 1/10"
    using t10 [rule_format, OF sixteen_chart_member] by simp
  have 7: "Max (set (capped_of_group company_label ?d (it_cats ''All'')
                 (''Vendor A'', ''IT Equipment & Services''))) \<le> 1/10"
    using t11 [rule_format, OF sixteen_chart_member sixteen_chart_left_out] by simp
  from desc asc 1 sixteen_top_member sixteen_left_out 2 sixteen_within_one 3 4 5 sixteen_chart_member sixteen_chart_left_out 6 7 show ?thesis
    by (intro conjI)
qed

text \<open>
  The claim as stated fails twice.  A single row with a commitment of 1.5 in \<^verbatim>\<open>ITS\<close>:
  the EDA view returns the maximum 1.5, while the maximum of the capped values is 1.0.
  A table with the maxima 0.4, 0.5 and 0.2 in three groups: the dashboard view returns
  them as 0.2, 0.4, 0.5, in ascending order.
\<close>

theorem bq1_uncapped_and_ascending_counterexample:
  "bq1_it_sector_top_sdo (stable_descending SDO_Max) [vendor_Fern] = [((''Fern Systems'', ''ITS''), 3/2, 1)]
   \<and> Max (set (capped_of_group company_category [vendor_Fern] [''ITE'', ''ITS'', ''ITT'']
                 (''Fern Systems'', ''ITS''))) = 1
   \<and> make_bq1_chart (stable_ascending snd) ''All'' (vendor_with_sdo (map with_label vendors_IT))
       = [((''Hale Tech'', ''IT Equipment & Services''), 1/5),
          ((''Acme Corp'', ''IT Equipment & Services''), 2/5),
          ((''Gale Net'', ''Telecom & Networking''), 1/2)]"
  by code_simp

end
